theory Spec2Isabelle
  imports Complex_Main
begin

section \<open>The JavaScript values the controller works on\<close>

text \<open>
  A JavaScript string is a sequence of UTF-16 code units; \<open>length\<close>, \<open>word[0]\<close>,
  \<open>substr\<close>, \<open>split\<close> and \<open>indexOf\<close> all count code units. A string is therefore a
  list of code units, each a natural number (a real code unit is below 65536; nothing
  below depends on the bound). \<open>js\<close> turns an ASCII literal into such a string.
\<close>

type_synonym jsstr = "nat list"

definition js :: "string \<Rightarrow> jsstr" where
  "js s = map of_char s"

text \<open>
  A JavaScript number is an IEEE double: not-a-number, an infinity, or a finite value,
  which is a rational number. The model keeps the exact rational value (every double is
  one) and merges \<open>-0\<close> with \<open>0\<close>.
\<close>

datatype jsnum = Fin rat | PosInf | NegInf | NaN

text \<open>
  The scalar values that reach the controller from the query string, the route and the
  decoded upstream JSON.
\<close>

datatype jsval = Undefined | Null | Bool bool | Num jsnum | Str jsstr

text \<open>
  The parts of the ECMAScript runtime that are tables or floating point algorithms, taken
  as parameters: the Unicode case mappings of strings that are not pure ASCII, the
  parsing of a string to a number (\<open>Number(s)\<close>) and the printing of a finite number
  (\<open>String(x)\<close>).
\<close>

record runtime =
  upperExt :: "jsstr \<Rightarrow> jsstr"
  lowerExt :: "jsstr \<Rightarrow> jsstr"
  numberOf :: "jsstr \<Rightarrow> jsnum"
  finToString :: "rat \<Rightarrow> jsstr"

subsection \<open>Characters and case\<close>

definition isAscii :: "nat \<Rightarrow> bool" where
  "isAscii c = (c < 128)"

definition isUpperAZ :: "nat \<Rightarrow> bool" where
  "isUpperAZ c = (65 \<le> c \<and> c \<le> 90)"

definition isLowerAZ :: "nat \<Rightarrow> bool" where
  "isLowerAZ c = (97 \<le> c \<and> c \<le> 122)"

definition isDigit09 :: "nat \<Rightarrow> bool" where
  "isDigit09 c = (48 \<le> c \<and> c \<le> 57)"

text \<open>
  The class \<open>[A-Z]\<close> under the flag \<open>i\<close> (and without the flag \<open>u\<close>): a code unit
  matches when its canonical form, its upper case unless that leaves ASCII or is not a
  single code unit, is in \<open>A..Z\<close>; a code unit outside ASCII never canonicalises into
  ASCII, so the class is exactly the ASCII letters.
\<close>

definition isLetterAZi :: "nat \<Rightarrow> bool" where
  "isLetterAZi c = (isUpperAZ c \<or> isLowerAZ c)"

text \<open>The class \<open>[A-Z0-9]\<close> under the flag \<open>i\<close>.\<close>

definition isAlnumAZ09i :: "nat \<Rightarrow> bool" where
  "isAlnumAZ09i c = (isLetterAZi c \<or> isDigit09 c)"

definition asciiUpper :: "nat \<Rightarrow> nat" where
  "asciiUpper c = (if isLowerAZ c then c - 32 else c)"

definition asciiLower :: "nat \<Rightarrow> nat" where
  "asciiLower c = (if isUpperAZ c then c + 32 else c)"

text \<open>
  \<open>String.prototype.toUpperCase\<close> and \<open>toLowerCase\<close>: on a pure ASCII string the
  mapping is letter by letter; any other string is mapped by the runtime's Unicode tables.
\<close>

definition toUpperCase :: "runtime \<Rightarrow> jsstr \<Rightarrow> jsstr" where
  "toUpperCase rt s = (if list_all isAscii s then map asciiUpper s else upperExt rt s)"

definition toLowerCase :: "runtime \<Rightarrow> jsstr \<Rightarrow> jsstr" where
  "toLowerCase rt s = (if list_all isAscii s then map asciiLower s else lowerExt rt s)"

subsection \<open>trim, split, join, substr\<close>

text \<open>
  \<open>String.prototype.trim\<close> removes the ECMAScript white space and line terminator code
  units from both ends.
\<close>

definition isWhiteSpace :: "nat \<Rightarrow> bool" where
  "isWhiteSpace c =
     (c \<in> set [9, 10, 11, 12, 13, 32, 160, 5760, 8232, 8233, 8239, 8287, 12288, 65279]
      \<or> (8192 \<le> c \<and> c \<le> 8202))"

definition trim :: "jsstr \<Rightarrow> jsstr" where
  "trim s = rev (dropWhile isWhiteSpace (rev (dropWhile isWhiteSpace s)))"

text \<open>
  \<open>s.split(sep)\<close> for a separator that matches exactly one code unit (the string
  \<open>" "\<close>, or a one-character class): the pieces between the separators, empty pieces
  included; the empty string gives one empty piece.
\<close>

fun splitOn :: "(nat \<Rightarrow> bool) \<Rightarrow> jsstr \<Rightarrow> jsstr list" where
  "splitOn sep [] = [[]]"
| "splitOn sep (c # cs) =
     (if sep c then [] # splitOn sep cs
      else (case splitOn sep cs of
              [] \<Rightarrow> [[c]]
            | piece # pieces \<Rightarrow> (c # piece) # pieces))"

fun join :: "jsstr \<Rightarrow> jsstr list \<Rightarrow> jsstr" where
  "join sep [] = []"
| "join sep [x] = x"
| "join sep (x # y # ys) = x @ sep @ join sep (y # ys)"

text \<open>\<open>s.substr(-n)\<close>: the last \<open>n\<close> code units, the whole string when it is shorter.\<close>

definition substrLast :: "nat \<Rightarrow> jsstr \<Rightarrow> jsstr" where
  "substrLast n s = drop (length s - n) s"

section \<open>The offer abbreviator\<close>

text \<open>
  The function mapped over the words of an offer. The words it receives are not empty
  (the filter before it drops the empty ones), so \<open>word[0]\<close> is the one-character string
  \<open>take 1 word\<close>; \<open>word.substr(1)\<close> is \<open>drop 1 word\<close>, and the replacement deletes
  every match of \<open>/[A-Z]/gi\<close>.
\<close>

definition abbreviateWord :: "runtime \<Rightarrow> jsstr \<Rightarrow> jsstr" where
  "abbreviateWord rt word =
     (if toLowerCase rt word = js ''for'' then js ''-4-''
      else toUpperCase rt (take 1 word) @ filter (\<lambda>c. \<not> isLetterAZi c) (drop 1 word))"

definition abbreviateOffer :: "runtime \<Rightarrow> jsstr \<Rightarrow> jsstr" where
  "abbreviateOffer rt offer =
     (if 32 \<notin> set (trim offer) then toUpperCase rt offer
      else concat (map (abbreviateWord rt)
             (filter (\<lambda>word. length word \<noteq> 0)
                (splitOn (\<lambda>c. \<not> isAlnumAZ09i c) offer))))"

section \<open>Numbers and coercions\<close>

text \<open>The decimal digits of a natural number.\<close>

fun digits :: "nat \<Rightarrow> jsstr" where
  "digits n = (if n < 10 then [48 + n] else digits (n div 10) @ [48 + n mod 10])"

declare digits.simps [simp del]

definition numToString :: "runtime \<Rightarrow> jsnum \<Rightarrow> jsstr" where
  "numToString rt x =
     (case x of
        NaN \<Rightarrow> js ''NaN''
      | PosInf \<Rightarrow> js ''Infinity''
      | NegInf \<Rightarrow> js ''-Infinity''
      | Fin q \<Rightarrow> finToString rt q)"

text \<open>
  The digits of \<open>n\<close> hundredths, printed with two decimals: the digits are padded with
  zeros on the left to three at least, and the point goes before the last two.
\<close>

definition twoDecimals :: "nat \<Rightarrow> jsstr" where
  "twoDecimals n =
     (let m = digits n;
          m' = (if length m \<le> 2 then replicate (3 - length m) 48 @ m else m);
          k = length m'
      in take (k - 2) m' @ js ''.'' @ drop (k - 2) m')"

text \<open>
  \<open>Number.prototype.toFixed(2)\<close>: a value that is not finite prints as \<open>String\<close>
  prints it; otherwise the sign is split off, a magnitude of at least \<open>10^21\<close> prints as
  \<open>String\<close> prints it, and a smaller one is rounded to the nearest multiple of 1/100
  (the larger one on a tie) and printed with two decimals.
\<close>

definition toFixed2 :: "runtime \<Rightarrow> jsnum \<Rightarrow> jsstr" where
  "toFixed2 rt x =
     (case x of
        Fin q \<Rightarrow>
          (let s = (if q < 0 then js ''-'' else []);
               a = \<bar>q\<bar>
           in if 10 ^ 21 \<le> a then s @ finToString rt a
              else s @ twoDecimals (nat \<lfloor>a * 100 + 1 / 2\<rfloor>))
      | _ \<Rightarrow> numToString rt x)"

text \<open>\<open>Number(v)\<close>, \<open>String(v)\<close> (also what a template literal prints) and truthiness.\<close>

definition toNumber :: "runtime \<Rightarrow> jsval \<Rightarrow> jsnum" where
  "toNumber rt v =
     (case v of
        Undefined \<Rightarrow> NaN
      | Null \<Rightarrow> Fin 0
      | Bool b \<Rightarrow> Fin (if b then 1 else 0)
      | Num n \<Rightarrow> n
      | Str s \<Rightarrow> numberOf rt s)"

definition toString :: "runtime \<Rightarrow> jsval \<Rightarrow> jsstr" where
  "toString rt v =
     (case v of
        Undefined \<Rightarrow> js ''undefined''
      | Null \<Rightarrow> js ''null''
      | Bool b \<Rightarrow> (if b then js ''true'' else js ''false'')
      | Num n \<Rightarrow> numToString rt n
      | Str s \<Rightarrow> s)"

definition truthy :: "jsval \<Rightarrow> bool" where
  "truthy v =
     (case v of
        Undefined \<Rightarrow> False
      | Null \<Rightarrow> False
      | Bool b \<Rightarrow> b
      | Num n \<Rightarrow> n \<noteq> NaN \<and> n \<noteq> Fin 0
      | Str s \<Rightarrow> s \<noteq> [])"

text \<open>\<open>x || 0\<close> on a number: \<open>0\<close> and \<open>NaN\<close> are falsy.\<close>

definition numOrZero :: "jsnum \<Rightarrow> jsnum" where
  "numOrZero x = (if x = NaN \<or> x = Fin 0 then Fin 0 else x)"

section \<open>Errors\<close>

text \<open>
  What a promise of the controller rejects with: an \<open>HttpError\<close> (utils/HttpError.js:
  message and \<open>statusCode\<close>), a plain \<open>Error\<close> with its message, a \<open>TypeError\<close>
  raised by the engine (a property read on \<open>null\<close> or \<open>undefined\<close>, a call of
  something that is no function), or whatever the transport or the decoding of a reply
  rejected with (its message, and its \<open>statusCode\<close> property if it has one).
\<close>

datatype error =
    HttpError jsstr int
  | Error jsstr
  | TypeError
  | Rejected jsstr "int option"

fun statusCode :: "error \<Rightarrow> int option" where
  "statusCode (HttpError m st) = Some st"
| "statusCode (Error m) = None"
| "statusCode TypeError = None"
| "statusCode (Rejected m st) = st"

text \<open>The routes answer a rejection with \<open>res.status(err.statusCode || 500)\<close>.\<close>

definition responseStatus :: "error \<Rightarrow> int" where
  "responseStatus err =
     (case statusCode err of
        None \<Rightarrow> 500
      | Some st \<Rightarrow> (if st = 0 then 500 else st))"

section \<open>Records of the controller\<close>

text \<open>A field of a decoded JSON object that holds an object or an array when it is there.\<close>

datatype 'a field = Absent | IsNull | Has 'a

record store =
  storeName :: jsstr
  storeId :: jsnum
  storeAddress :: jsstr
  storePhone :: jsstr

record rawStore =
  DisplayLine1 :: jsval
  Key :: jsval
  Property :: jsval
  Street :: jsval
  PostCode :: jsval
  Telephone :: jsval

record locatorPayload =
  Stores :: "rawStore list field"
  ErrorMsg :: jsval

text \<open>
  The body of the store locator request; \<open>StartDistance\<close> is always 0 and
  \<open>NumberOfStores\<close> always 1.
\<close>

record locateRequest =
  reqTown :: jsstr
  reqPostCode :: jsstr
  reqLatitude :: jsstr
  reqLongitude :: jsstr

text \<open>
  The body of the stock request (the keys \<open>_prod_CCStoreNo\<close>, \<open>_prod_SizeId\<close> and
  \<open>_prod_Qty\<close>); \<open>_prod_hasStockInWH\<close> is always \<open>true\<close> and \<open>_prod_Action\<close>
  always \<open>getStoreStock\<close>.
\<close>

record stockRequest =
  prod_CCStoreNo :: jsstr
  prod_SizeId :: jsstr
  prod_Qty :: jsstr

record rawStock =
  HasStock :: jsval
  StoreName :: jsval
  StoreNo :: jsval
  StoreAddress :: jsval

text \<open>The decoded stock payload, seen through its key \<open>_prod_sNo_Stock\<close>.\<close>

record stockPayload =
  prod_sNo_Stock :: "rawStock field"

record stockCheckResult =
  inStock :: jsval
  stockStoreName :: jsval
  stockStoreId :: jsval
  stockStoreAddress :: jsval

record sizeEntry =
  sizeLabel :: jsstr
  stockWarehouse :: jsnum
  sizeCode :: jsstr

record offer =
  name :: jsstr
  imageSrc :: jsval
  abbr :: jsstr

record product =
  productId :: jsnum
  productName :: jsstr
  priceCurrent :: jsnum
  currency :: jsstr
  thumbnail :: jsval
  categories :: "jsstr list"
  sizeRange :: "sizeEntry list"
  offers :: "offer list"

text \<open>
  The product page as the selectors of \<open>getProductInfo\<close> see it. An element looked up
  with \<open>querySelector\<close> is \<open>None\<close> when nothing matches; an attribute read with
  \<open>getAttribute\<close> is \<open>Null\<close> or a string. The size and offer elements are selected
  by the attributes read from them (\<open>li[data-id][data-qty]\<close>, \<open>a[href][title]\<close>), so
  these attributes are strings.
\<close>

record sizeElement =
  sizeText :: jsstr
  dataQty :: jsstr
  dataId :: jsstr

record offerElement =
  title :: jsstr
  imgSrc :: "jsval option"

record document =
  skuText :: "jsstr option"
  nameText :: "jsstr option"
  priceContent :: "jsval option"
  currencyContent :: "jsval option"
  mainImageSrc :: "jsval option"
  breadcrumbs :: "jsstr list"
  sizeElements :: "sizeElement list"
  offerElements :: "offerElement list"

section \<open>The upstream site and the caches\<close>

text \<open>
  The third-party site at the time of a call. Each function stands for the request and
  the decoding of its reply: \<open>axios.post\<close> followed by \<open>JSON.parse(data.d)\<close>
  (or \<open>data.d.data\<close>) and the read of the payload's keys, and \<open>JSDOM.fromURL\<close>. A
  rejection of the transport, a reply that does not parse and a payload that is
  \<open>null\<close> are the errors they return.
\<close>

record upstream =
  findRequestedStores :: "locateRequest \<Rightarrow> error + locatorPayload"
  storeStockAjaxRequest :: "stockRequest \<Rightarrow> error + stockPayload"
  fromURL :: "jsstr \<Rightarrow> error + document"

text \<open>The requests a call issued, in order.\<close>

datatype request =
    FindRequestedStores locateRequest
  | StoreStockAjaxRequest stockRequest
  | FromURL jsstr

text \<open>
  The two flat-cache stores of the controller (\<open>getKey\<close>, \<open>setKey\<close>). An entry of
  the product store is \<open>{ timestamp, value }\<close>. The write of a store to its file
  (\<open>save\<close>) is taken to succeed; it does not change what \<open>getKey\<close> returns.
\<close>

record pageEntry =
  timestamp :: int
  cachedValue :: product

record cache =
  locator :: "jsstr \<rightharpoonup> store"
  products :: "jsstr \<rightharpoonup> pageEntry"

section \<open>locateStore\<close>

text \<open>
  The cache key, from the two fixed strings and the two optional query fields (\<open>None\<close>
  is \<open>undefined\<close>): the fields that are not \<open>undefined\<close>, each lower-cased, joined
  with commas, after the prefix.
\<close>

definition locateCacheKey :: "runtime \<Rightarrow> jsstr \<Rightarrow> jsstr \<Rightarrow> jsstr option \<Rightarrow> jsstr option \<Rightarrow> jsstr" where
  "locateCacheKey rt lat lon city postcode =
     js ''near:'' @
     join (js '','')
       (map (\<lambda>v. toLowerCase rt (the v))
          (filter (\<lambda>v. v \<noteq> None) [Some lat, Some lon, city, postcode]))"

definition locateRequestBody :: "runtime \<Rightarrow> jsstr \<Rightarrow> jsstr \<Rightarrow> jsstr option \<Rightarrow> jsstr option \<Rightarrow> locateRequest" where
  "locateRequestBody rt lat lon city postcode =
     \<lparr> reqTown = (case city of None \<Rightarrow> [] | Some t \<Rightarrow> t),
       reqPostCode =
         (case postcode of
            None \<Rightarrow> []
          | Some pc \<Rightarrow>
              (if pc = [] then []
               else toUpperCase rt (join [] (splitOn (\<lambda>c. c = 32) pc)))),
       reqLatitude = lat,
       reqLongitude = lon \<rparr>"

text \<open>
  The handler of the decoded payload: the guarded throw, then \<open>Stores[0]\<close>, which is
  \<open>undefined\<close> (\<open>None\<close>) on an empty array and a \<open>TypeError\<close> when \<open>Stores\<close> is no
  array.
\<close>

definition firstStore :: "runtime \<Rightarrow> locatorPayload \<Rightarrow> error + rawStore option" where
  "firstStore rt payload =
     (if Stores payload = IsNull \<and> truthy (ErrorMsg payload)
      then Inl (HttpError (toString rt (ErrorMsg payload)) 400)
      else (case Stores payload of
              Has [] \<Rightarrow> Inr None
            | Has (s # rest) \<Rightarrow> Inr (Some s)
            | _ \<Rightarrow> Inl TypeError))"

text \<open>A method of strings called on a value: a \<open>TypeError\<close> unless it is a string.\<close>

definition asString :: "jsval \<Rightarrow> error + jsstr" where
  "asString v = (case v of Str s \<Rightarrow> Inr s | _ \<Rightarrow> Inl TypeError)"

text \<open>
  The words of the display name, each with its first code unit upper-cased; an empty
  word has no \<open>word[0]\<close>, and the call of \<open>toUpperCase\<close> on it throws.
\<close>

fun capitalise :: "runtime \<Rightarrow> jsstr list \<Rightarrow> error + jsstr list" where
  "capitalise rt [] = Inr []"
| "capitalise rt (word # ws) =
     (if word = [] then Inl TypeError
      else (case capitalise rt ws of
              Inl e \<Rightarrow> Inl e
            | Inr r \<Rightarrow> Inr ((toUpperCase rt (take 1 word) @ drop 1 word) # r)))"

definition toStore :: "runtime \<Rightarrow> rawStore option \<Rightarrow> error + store" where
  "toStore rt d =
     (case d of
        None \<Rightarrow> Inl TypeError
      | Some data \<Rightarrow>
          (case asString (DisplayLine1 data) of
             Inl e \<Rightarrow> Inl e
           | Inr line \<Rightarrow>
               (case capitalise rt (splitOn (\<lambda>c. c = 32) (toLowerCase rt line)) of
                  Inl e \<Rightarrow> Inl e
                | Inr ws \<Rightarrow>
                    (case asString (Telephone data) of
                       Inl e \<Rightarrow> Inl e
                     | Inr tel \<Rightarrow>
                         Inr \<lparr> storeName = join (js '' '') ws,
                               storeId = toNumber rt (Key data),
                               storeAddress =
                                 toString rt (Property data) @ js '', '' @
                                 toString rt (Street data) @ js '', '' @
                                 toString rt (PostCode data),
                               storePhone = join [] (splitOn (\<lambda>c. c = 32) tel) \<rparr>))))"

text \<open>
  \<open>locateStore\<close> on the cache \<open>c\<close>: the result of the promise, the cache afterwards
  and the requests issued. A value cached under the key is an object, hence truthy.
\<close>

definition locateStore ::
  "runtime \<Rightarrow> upstream \<Rightarrow> cache \<Rightarrow> jsval \<Rightarrow> jsval \<Rightarrow> jsstr option \<Rightarrow> jsstr option
     \<Rightarrow> (error + store) \<times> cache \<times> request list" where
  "locateStore rt up c lat0 lon0 city postcode =
     (let lat = toFixed2 rt (numOrZero (toNumber rt lat0));
          lon = toFixed2 rt (numOrZero (toNumber rt lon0));
          cacheKey = locateCacheKey rt lat lon city postcode
      in case locator c cacheKey of
           Some cachedStore \<Rightarrow> (Inr cachedStore, c, [])
         | None \<Rightarrow>
             (let body = locateRequestBody rt lat lon city postcode;
                  sent = [FindRequestedStores body]
              in case findRequestedStores up body of
                   Inl e \<Rightarrow> (Inl e, c, sent)
                 | Inr payload \<Rightarrow>
                     (case firstStore rt payload of
                        Inl e \<Rightarrow> (Inl e, c, sent)
                      | Inr d \<Rightarrow>
                          (case toStore rt d of
                             Inl e \<Rightarrow> (Inl e, c, sent)
                           | Inr data \<Rightarrow>
                               (Inr data,
                                c\<lparr>locator := (locator c)(cacheKey \<mapsto> data)\<rparr>,
                                sent)))))"

section \<open>checkStoreStock\<close>

definition checkStoreStock ::
  "runtime \<Rightarrow> upstream \<Rightarrow> cache \<Rightarrow> jsval \<Rightarrow> jsval \<Rightarrow> jsval \<Rightarrow> jsval
     \<Rightarrow> (error + stockCheckResult) \<times> cache \<times> request list" where
  "checkStoreStock rt up c styleCode sizeArg storeIdArg quantity0 =
     (let quantity = (if quantity0 = Undefined then Num (Fin 1) else quantity0);
          body = \<lparr> prod_CCStoreNo = toString rt storeIdArg,
                   prod_SizeId = toString rt styleCode @ toString rt sizeArg,
                   prod_Qty = toString rt (if truthy quantity then quantity else Num (Fin 1)) \<rparr>;
          sent = [StoreStockAjaxRequest body]
      in case storeStockAjaxRequest up body of
           Inl e \<Rightarrow> (Inl e, c, sent)
         | Inr data \<Rightarrow>
             (case prod_sNo_Stock data of
                Has d \<Rightarrow>
                  (Inr \<lparr> inStock = HasStock d,
                         stockStoreName = StoreName d,
                         stockStoreId = StoreNo d,
                         stockStoreAddress = StoreAddress d \<rparr>,
                   c, sent)
              | _ \<Rightarrow> (Inl (Error (js ''Product unavailable'')), c, sent)))"

section \<open>fetchWebpage and getProductInfo\<close>

text \<open>
  What \<open>fetchWebpage\<close> resolves with: the cached value (\<open>cached: true\<close>), or the
  fetched page with the \<open>setCache\<close> callback, which takes the value to store, the clock
  at the time it is called and the cache it writes to.
\<close>

datatype fetched =
    CachedResult product
  | FreshResult document "product \<Rightarrow> int \<Rightarrow> cache \<Rightarrow> cache"

definition setCache :: "jsstr \<Rightarrow> int \<Rightarrow> product \<Rightarrow> int \<Rightarrow> cache \<Rightarrow> cache" where
  "setCache cacheKey cacheTTL v now c =
     (if cacheTTL = 0 then c
      else c\<lparr>products := (products c)(cacheKey \<mapsto> \<lparr> timestamp = now, cachedValue = v \<rparr>)\<rparr>)"

text \<open>
  \<open>now\<close> is \<open>Date.now()\<close> at the cache check. An argument that is \<open>None\<close> takes its
  default; a time to live of 0 is falsy and switches the cache off.
\<close>

definition fetchWebpage ::
  "runtime \<Rightarrow> upstream \<Rightarrow> cache \<Rightarrow> int \<Rightarrow> jsstr option \<Rightarrow> int option
     \<Rightarrow> (error + fetched) \<times> request list" where
  "fetchWebpage rt up c now pathname0 cacheTTL0 =
     (let pathname = (case pathname0 of None \<Rightarrow> js ''/'' | Some p \<Rightarrow> p);
          cacheTTL = (case cacheTTL0 of None \<Rightarrow> 31536000 | Some t \<Rightarrow> t);
          cacheKey = js ''page@sz:'' @ toLowerCase rt pathname;
          hit =
            (if cacheTTL \<noteq> 0 then
               (case products c cacheKey of
                  None \<Rightarrow> None
                | Some e \<Rightarrow>
                    (if timestamp e \<noteq> 0 \<and> now - timestamp e < cacheTTL
                     then Some (cachedValue e) else None))
             else None)
      in case hit of
           Some v \<Rightarrow> (Inr (CachedResult v), [])
         | None \<Rightarrow>
             (case fromURL up pathname of
                Inl e \<Rightarrow> (Inl e, [FromURL pathname])
              | Inr jsdom \<Rightarrow>
                  (Inr (FreshResult jsdom (setCache cacheKey cacheTTL)), [FromURL pathname])))"

text \<open>The badges that are no offers, lower-cased.\<close>

definition ignoredOffers :: "jsstr list" where
  "ignoredOffers = [js ''memory foam'']"

text \<open>The callback of \<open>Array.from\<close> over the offer badges; a badge without an image throws.\<close>

fun toOffers :: "runtime \<Rightarrow> offerElement list \<Rightarrow> error + offer list" where
  "toOffers rt [] = Inr []"
| "toOffers rt (el # els) =
     (case imgSrc el of
        None \<Rightarrow> Inl TypeError
      | Some src \<Rightarrow>
          (case toOffers rt els of
             Inl e \<Rightarrow> Inl e
           | Inr r \<Rightarrow>
               Inr (\<lparr> name = trim (title el),
                      imageSrc = src,
                      abbr = abbreviateOffer rt (title el) \<rparr> # r)))"

definition toSizeEntry :: "runtime \<Rightarrow> sizeElement \<Rightarrow> sizeEntry" where
  "toSizeEntry rt el =
     \<lparr> sizeLabel = toUpperCase rt (trim (sizeText el)),
       stockWarehouse = numberOf rt (dataQty el),
       sizeCode = substrLast 3 (trim (dataId el)) \<rparr>"

text \<open>The scrape of a fetched page; every failure of it is a \<open>TypeError\<close>.\<close>

definition parseProduct :: "runtime \<Rightarrow> document \<Rightarrow> error + product" where
  "parseProduct rt page =
     (case (skuText page, nameText page, priceContent page, currencyContent page, mainImageSrc page) of
        (Some sku, Some nm, Some price, Some cur, Some thumb) \<Rightarrow>
          (case asString cur of
             Inl e \<Rightarrow> Inl e
           | Inr curText \<Rightarrow>
               (case toOffers rt (offerElements page) of
                  Inl e \<Rightarrow> Inl e
                | Inr allOffers \<Rightarrow>
                    Inr \<lparr> productId = numberOf rt sku,
                          productName = trim nm,
                          priceCurrent = toNumber rt price,
                          currency = toUpperCase rt (trim curText),
                          thumbnail = thumb,
                          categories = map trim (breadcrumbs page),
                          sizeRange = map (toSizeEntry rt) (sizeElements page),
                          offers =
                            filter (\<lambda>x. toLowerCase rt (name x) \<notin> set ignoredOffers)
                              allOffers \<rparr>))
      | _ \<Rightarrow> Inl TypeError)"

text \<open>
  \<open>getProductInfo\<close> on the cache \<open>c\<close>; \<open>now\<close> is the clock at the cache check and
  \<open>nowStore\<close> the clock when the parsed product is stored. \<open>storeId\<close> is not used.
\<close>

definition getProductInfo ::
  "runtime \<Rightarrow> upstream \<Rightarrow> cache \<Rightarrow> int \<Rightarrow> int \<Rightarrow> jsstr \<Rightarrow> jsval
     \<Rightarrow> (error + product) \<times> cache \<times> request list" where
  "getProductInfo rt up c now nowStore styleCode0 storeIdArg =
     (let styleCode =
            (if int (length styleCode0) - 3 \<ge> 5
             then take (length styleCode0 - 3) styleCode0 else styleCode0)
      in case fetchWebpage rt up c now (Some (js ''/Products/Product-'' @ styleCode)) (Some 60000) of
           (Inl e, sent) \<Rightarrow> (Inl e, c, sent)
         | (Inr (CachedResult v), sent) \<Rightarrow> (Inr v, c, sent)
         | (Inr (FreshResult jsdom setC), sent) \<Rightarrow>
             (case parseProduct rt jsdom of
                Inl e \<Rightarrow> (Inl e, c, sent)
              | Inr productInfo \<Rightarrow> (Inr productInfo, setC productInfo nowStore c, sent)))"

section \<open>Definitions the statements refer to\<close>

text \<open>
  The tokens of an offer in the words of the specification: the maximal runs of code
  units that satisfy \<open>p\<close> (for an offer, the alphanumeric ones), in order.
\<close>

function maximalRuns :: "(nat \<Rightarrow> bool) \<Rightarrow> jsstr \<Rightarrow> jsstr list" where
  "maximalRuns p s =
     (case dropWhile (\<lambda>c. \<not> p c) s of
        [] \<Rightarrow> []
      | c # cs \<Rightarrow> (c # takeWhile p cs) # maximalRuns p (dropWhile p cs))"
  by pat_completeness auto
termination
proof (relation "measure (\<lambda>(p, s). length s)")
  show "wf (measure (\<lambda>(p, s). length s))" by simp
next
  fix p :: "nat \<Rightarrow> bool" and s :: jsstr and c cs
  assume eq: "dropWhile (\<lambda>c. \<not> p c) s = c # cs"
  have "length (dropWhile p cs) \<le> length cs"
    by (rule length_dropWhile_le)
  moreover have "length (c # cs) \<le> length s"
    unfolding eq [symmetric] by (rule length_dropWhile_le)
  ultimately show "((p, dropWhile p cs), (p, s)) \<in> measure (\<lambda>(p, s). length s)"
    by simp
qed

declare maximalRuns.simps [simp del]

text \<open>
  The rule for one token, with every letter after the first removed: \<open>for\<close> in any
  case becomes \<open>-4-\<close>; any other token becomes its first character in upper case
  followed by the digits among its remaining characters.
\<close>

definition amendedWord :: "jsstr \<Rightarrow> jsstr" where
  "amendedWord word =
     (if map asciiLower word = js ''for'' then js ''-4-''
      else map asciiUpper (take 1 word) @ filter isDigit09 (drop 1 word))"

text \<open>
  The rule for one token as the specification words it: after the first character only
  the upper case letters are removed, so the lower case letters stay.
\<close>

definition claimedWord :: "jsstr \<Rightarrow> jsstr" where
  "claimedWord word =
     (if map asciiLower word = js ''for'' then js ''-4-''
      else map asciiUpper (take 1 word) @ filter (\<lambda>c. \<not> isUpperAZ c) (drop 1 word))"

text \<open>
  A runtime for the concrete examples: the ASCII case mapping on every code unit, unsigned
  decimal numerals as numbers, and numbers printed by their whole part. It only fills the
  runtime parameter where a closed example needs one.
\<close>

definition exampleRuntime :: runtime where
  "exampleRuntime =
     \<lparr> upperExt = map asciiUpper,
       lowerExt = map asciiLower,
       numberOf = (\<lambda>s. if s \<noteq> [] \<and> list_all isDigit09 s
                         then Fin (of_nat (foldl (\<lambda>a c. 10 * a + (c - 48)) 0 s)) else NaN),
       finToString = (\<lambda>q. (if q < 0 then js ''-'' else []) @ digits (nat \<lfloor>\<bar>q\<bar>\<rfloor>)) \<rparr>"

text \<open>The fields of a query that are not \<open>undefined\<close>.\<close>

definition present :: "jsstr option \<Rightarrow> jsstr list" where
  "present v = (case v of None \<Rightarrow> [] | Some x \<Rightarrow> [x])"

text \<open>What \<open>locateStore\<close> makes of a coordinate: \<open>(Number(v) || 0).toFixed(2)\<close>.\<close>

abbreviation (input) roundedCoord :: "runtime \<Rightarrow> jsval \<Rightarrow> jsstr" where
  "roundedCoord rt v \<equiv> toFixed2 rt (numOrZero (toNumber rt v))"

text \<open>A store, a locator cache that holds it under one key, and a site that is down.\<close>

definition exampleStore :: store where
  "exampleStore =
     \<lparr> storeName = js ''London Bridge'',
       storeId = Fin 1234,
       storeAddress = js ''1 High Street, London, SE1 1AA'',
       storePhone = js ''02070000000'' \<rparr>"

definition cacheWithStore :: "jsstr \<Rightarrow> cache" where
  "cacheWithStore k = \<lparr> locator = [k \<mapsto> exampleStore], products = Map.empty \<rparr>"

definition emptyCache :: cache where
  "emptyCache = \<lparr> locator = Map.empty, products = Map.empty \<rparr>"

definition offlineUpstream :: upstream where
  "offlineUpstream =
     \<lparr> findRequestedStores = (\<lambda>r. Inl (Rejected (js ''offline'') None)),
       storeStockAjaxRequest = (\<lambda>r. Inl (Rejected (js ''offline'') None)),
       fromURL = (\<lambda>r. Inl (Rejected (js ''offline'') None)) \<rparr>"

text \<open>Sites whose store locator, stock check or product page answers with a given reply.\<close>

definition locatorReplies :: "locatorPayload \<Rightarrow> upstream" where
  "locatorReplies payload = offlineUpstream\<lparr>findRequestedStores := (\<lambda>r. Inr payload)\<rparr>"

definition stockReplies :: "stockPayload \<Rightarrow> upstream" where
  "stockReplies payload = offlineUpstream\<lparr>storeStockAjaxRequest := (\<lambda>r. Inr payload)\<rparr>"

definition pageReplies :: "document \<Rightarrow> upstream" where
  "pageReplies page = offlineUpstream\<lparr>fromURL := (\<lambda>r. Inr page)\<rparr>"

text \<open>
  The style code \<open>getProductInfo\<close> requests, the path of its page and the key of the
  page in the product cache.
\<close>

definition baseStyle :: "jsstr \<Rightarrow> jsstr" where
  "baseStyle s = (if int (length s) - 3 \<ge> 5 then take (length s - 3) s else s)"

abbreviation (input) productPath :: "jsstr \<Rightarrow> jsstr" where
  "productPath base \<equiv> js ''/Products/Product-'' @ base"

abbreviation (input) pageKey :: "runtime \<Rightarrow> jsstr \<Rightarrow> jsstr" where
  "pageKey rt base \<equiv> js ''page@sz:'' @ toLowerCase rt (productPath base)"

text \<open>The entry of the product cache under a key is within the page's time to live.\<close>

definition pageFresh :: "cache \<Rightarrow> jsstr \<Rightarrow> int \<Rightarrow> bool" where
  "pageFresh c k now =
     (case products c k of
        None \<Rightarrow> False
      | Some e \<Rightarrow> timestamp e \<noteq> 0 \<and> now - timestamp e < 60000)"

text \<open>No offer of a product is on the ignore list; no cached product has such an offer.\<close>

definition offersFiltered :: "runtime \<Rightarrow> product \<Rightarrow> bool" where
  "offersFiltered rt p =
     list_all (\<lambda>x. toLowerCase rt (name x) \<notin> set ignoredOffers) (offers p)"

definition cacheFiltered :: "runtime \<Rightarrow> cache \<Rightarrow> bool" where
  "cacheFiltered rt c = (\<forall>k e. products c k = Some e \<longrightarrow> offersFiltered rt (cachedValue e))"

text \<open>
  A product page with three badges: one titled as the ignored entry in another case and
  with spaces around it, one that only contains the entry, and an offer.
\<close>

definition examplePage :: document where
  "examplePage =
     \<lparr> skuText = Some (js ''12345''),
       nameText = Some (js '' Court Shoe ''),
       priceContent = Some (Str (js ''20'')),
       currencyContent = Some (Str (js ''gbp'')),
       mainImageSrc = Some (Str (js ''/img/12345.jpg'')),
       breadcrumbs = [js ''Womens'', js '' Shoes''],
       sizeElements = [\<lparr> sizeText = js '' 5 '', dataQty = js ''7'', dataId = js ''12345050'' \<rparr>],
       offerElements =
         [\<lparr> title = js '' MEMORY Foam '', imgSrc = Some (Str (js ''/img/mf.png'')) \<rparr>,
          \<lparr> title = js ''Memory Foam Insoles'', imgSrc = Some (Str (js ''/img/mfi.png'')) \<rparr>,
          \<lparr> title = js ''Buy One Get One Free'', imgSrc = Some Null \<rparr>] \<rparr>"

definition exampleProduct :: product where
  "exampleProduct =
     \<lparr> productId = Fin 12345,
       productName = js ''Court Shoe'',
       priceCurrent = Fin 20,
       currency = js ''GBP'',
       thumbnail = Str (js ''/img/12345.jpg''),
       categories = [js ''Womens'', js ''Shoes''],
       sizeRange = [\<lparr> sizeLabel = js ''5'', stockWarehouse = Fin 7, sizeCode = js ''050'' \<rparr>],
       offers =
         [\<lparr> name = js ''Memory Foam Insoles'', imageSrc = Str (js ''/img/mfi.png''),
            abbr = js ''MFI'' \<rparr>,
          \<lparr> name = js ''Buy One Get One Free'', imageSrc = Null, abbr = js ''BOGOF'' \<rparr>] \<rparr>"

text \<open>The caches after the example page was fetched and stored at the time 1200.\<close>

definition cacheWithProduct :: cache where
  "cacheWithProduct =
     \<lparr> locator = Map.empty,
       products =
         [js ''page@sz:/products/product-12345'' \<mapsto>
            \<lparr> timestamp = 1200, cachedValue = exampleProduct \<rparr>] \<rparr>"

text \<open>A stock reply for a pair of style and size the site knows.\<close>

definition exampleStock :: rawStock where
  "exampleStock =
     \<lparr> HasStock = Bool True,
       StoreName = Str (js ''London Bridge''),
       StoreNo = Num (Fin 1234),
       StoreAddress = Str (js ''1 High Street, London, SE1 1AA'') \<rparr>"

section \<open>Evaluation of strings\<close>

lemma js_Nil: "js [] = []"
  by (simp add: js_def)

lemma js_Cons: "js (c # cs) = of_char c # js cs"
  by (simp add: js_def)

lemmas char_class_defs =
  isAscii_def isUpperAZ_def isLowerAZ_def isDigit09_def isLetterAZi_def isAlnumAZ09i_def
  asciiUpper_def asciiLower_def isWhiteSpace_def

lemmas abbreviate_eval =
  abbreviateOffer_def abbreviateWord_def trim_def toUpperCase_def toLowerCase_def
  js_Nil js_Cons char_class_defs

section \<open>The offer abbreviator: tokens\<close>

lemma splitOn_not_Nil: "splitOn sep s \<noteq> []"
  by (induction s) (auto split: list.splits)

lemma hd_splitOn: "hd (splitOn (\<lambda>c. \<not> p c) s) = takeWhile p s"
  by (induction s) (auto simp: splitOn_not_Nil split: list.splits)

lemma tl_splitOn:
  "filter (\<lambda>w. w \<noteq> []) (tl (splitOn (\<lambda>c. \<not> p c) s)) =
   filter (\<lambda>w. w \<noteq> []) (splitOn (\<lambda>c. \<not> p c) (dropWhile p s))"
  by (induction s) (auto simp: splitOn_not_Nil split: list.splits)

lemma splitOn_skip:
  "filter (\<lambda>w. w \<noteq> []) (splitOn (\<lambda>c. \<not> p c) s) =
   filter (\<lambda>w. w \<noteq> []) (splitOn (\<lambda>c. \<not> p c) (dropWhile (\<lambda>c. \<not> p c) s))"
  by (induction s) (auto split: list.splits)

lemma splitOn_Cons_keep:
  "p c \<Longrightarrow> filter (\<lambda>w. w \<noteq> []) (splitOn (\<lambda>c. \<not> p c) (c # cs)) =
     (c # takeWhile p cs) # filter (\<lambda>w. w \<noteq> []) (splitOn (\<lambda>c. \<not> p c) (dropWhile p cs))"
  using hd_splitOn [of p cs] tl_splitOn [of p cs] splitOn_not_Nil [of "\<lambda>c. \<not> p c" cs]
  by (cases "splitOn (\<lambda>c. \<not> p c) cs") auto

text \<open>
  Splitting at every code unit outside the class and dropping the empty pieces gives the
  maximal runs of the class.
\<close>

lemma splitOn_runs_aux:
  "filter (\<lambda>w. w \<noteq> []) (splitOn (\<lambda>c. \<not> p c) s) = maximalRuns p s"
proof (induction p s rule: maximalRuns.induct)
  case (1 p s)
  let ?rest = "dropWhile (\<lambda>c. \<not> p c) s"
  have skip: "filter (\<lambda>w. w \<noteq> []) (splitOn (\<lambda>c. \<not> p c) s) =
              filter (\<lambda>w. w \<noteq> []) (splitOn (\<lambda>c. \<not> p c) ?rest)"
    by (rule splitOn_skip)
  show ?case
  proof (cases ?rest)
    case Nil
    have "maximalRuns p s = []"
      by (subst maximalRuns.simps) (simp only: Nil list.case)
    moreover have "filter (\<lambda>w. w \<noteq> []) (splitOn (\<lambda>c. \<not> p c) ?rest) = []"
      by (simp only: Nil) simp
    ultimately show ?thesis using skip by simp
  next
    case (Cons c cs)
    then have pc: "p c"
      using hd_dropWhile [of "\<lambda>c. \<not> p c" s] by auto
    have "filter (\<lambda>w. w \<noteq> []) (splitOn (\<lambda>c. \<not> p c) (c # cs)) =
          (c # takeWhile p cs) # maximalRuns p (dropWhile p cs)"
      using pc "1.IH" [OF Cons] by (simp only: splitOn_Cons_keep)
    moreover have "maximalRuns p s = (c # takeWhile p cs) # maximalRuns p (dropWhile p cs)"
      by (subst maximalRuns.simps) (simp only: Cons list.case)
    ultimately show ?thesis using skip by (simp only: Cons)
  qed
qed

lemma splitOn_runs:
  "filter (\<lambda>word. length word \<noteq> 0) (splitOn (\<lambda>c. \<not> p c) s) = maximalRuns p s"
  using splitOn_runs_aux [of p s] by simp

lemma maximalRuns_all: "w \<in> set (maximalRuns p s) \<Longrightarrow> list_all p w \<and> w \<noteq> []"
proof (induction p s arbitrary: w rule: maximalRuns.induct)
  case (1 p s)
  show ?case
  proof (cases "dropWhile (\<lambda>c. \<not> p c) s")
    case Nil
    with "1.prems" show ?thesis by (simp add: maximalRuns.simps)
  next
    case (Cons c cs)
    then have pc: "p c"
      using hd_dropWhile [of "\<lambda>c. \<not> p c" s] by auto
    from "1.prems" Cons have "w = c # takeWhile p cs \<or> w \<in> set (maximalRuns p (dropWhile p cs))"
      by (subst (asm) maximalRuns.simps) simp
    then show ?thesis
    proof
      assume "w = c # takeWhile p cs"
      with pc show ?thesis by (auto simp: list_all_iff dest: set_takeWhileD)
    next
      assume "w \<in> set (maximalRuns p (dropWhile p cs))"
      then show ?thesis by (rule "1.IH" [OF Cons])
    qed
  qed
qed

lemma alnum_ascii: "list_all isAlnumAZ09i w \<Longrightarrow> list_all isAscii w"
  by (induction w) (auto simp: char_class_defs)

lemma alnum_not_letter:
  "list_all isAlnumAZ09i w \<Longrightarrow> filter (\<lambda>c. \<not> isLetterAZi c) w = filter isDigit09 w"
  by (induction w) (auto simp: char_class_defs)

lemma abbreviateWord_alnum:
  assumes "list_all isAlnumAZ09i word"
  shows "abbreviateWord rt word = amendedWord word"
proof -
  have a: "list_all isAscii word"
    using assms by (rule alnum_ascii)
  have "list_all isAlnumAZ09i (take 1 word)" and d: "list_all isAlnumAZ09i (drop 1 word)"
    using assms by (auto simp: list_all_iff dest: in_set_takeD in_set_dropD)
  then have "list_all isAscii (take 1 word)"
    by (simp add: alnum_ascii)
  with a d show ?thesis
    by (simp add: abbreviateWord_def amendedWord_def toLowerCase_def toUpperCase_def
        alnum_not_letter)
qed

text \<open>
  C2, as the code has it. For every offer whose trimmed form contains a space (a
  multi-word offer), the abbreviation is the concatenation, with no separator, of the
  transformed tokens, where the tokens are the maximal runs of ASCII letters and digits,
  a token equal to \<open>for\<close> in any case becomes \<open>-4-\<close>, and every other token becomes
  its first character in upper case followed by the digits of its remaining characters:
  all further letters are removed, the lower case ones too.
\<close>

theorem abbreviateOffer_words:
  assumes "32 \<in> set (trim offer)"
  shows "abbreviateOffer rt offer =
         concat (map amendedWord (maximalRuns isAlnumAZ09i offer))"
proof -
  have "map (abbreviateWord rt) (maximalRuns isAlnumAZ09i offer) =
        map amendedWord (maximalRuns isAlnumAZ09i offer)"
    by (rule map_cong [OF refl]) (simp add: abbreviateWord_alnum maximalRuns_all)
  with assms show ?thesis
    by (simp only: abbreviateOffer_def splitOn_runs) simp
qed

theorem abbreviateOffer_words_witness:
  "32 \<in> set (trim (js ''3 for 2 on SOCKS'')) \<and>
   abbreviateOffer exampleRuntime (js ''3 for 2 on SOCKS'') = js ''3-4-2OS''"
proof -
  have h: "32 \<in> set (trim (js ''3 for 2 on SOCKS''))"
    by (simp add: trim_def js_Nil js_Cons isWhiteSpace_def)
  have "concat (map amendedWord (maximalRuns isAlnumAZ09i (js ''3 for 2 on SOCKS''))) =
        js ''3-4-2OS''"
    by code_simp
  with abbreviateOffer_words [OF h, of exampleRuntime] h show ?thesis
    by simp
qed

text \<open>
  C2 as the specification words it fails on the specification's own example: the code
  abbreviates \<open>Buy One Get One Free\<close> to \<open>BOGOF\<close>, while keeping the lower case
  interior of each token would give \<open>BuyOneGetOneFree\<close>.
\<close>

theorem abbreviateOffer_drops_lower_case:
  "abbreviateOffer exampleRuntime (js ''Buy One Get One Free'') = js ''BOGOF'' \<and>
   concat (map claimedWord (maximalRuns isAlnumAZ09i (js ''Buy One Get One Free''))) =
     js ''BuyOneGetOneFree''"
proof -
  have "abbreviateOffer exampleRuntime (js ''Buy One Get One Free'') = js ''BOGOF''"
    by (simp add: abbreviate_eval)
  moreover have
    "concat (map claimedWord (maximalRuns isAlnumAZ09i (js ''Buy One Get One Free''))) =
       js ''BuyOneGetOneFree''"
    by code_simp
  ultimately show ?thesis by simp
qed

section \<open>The offer abbreviator: the documented examples\<close>

text \<open>
  C3. \<open>Buy One Get One Free\<close> is abbreviated to \<open>BOGOF\<close>, \<open>2 For \<pounds>10\<close> (the pound
  sign is the code unit 163) to \<open>2-4-10\<close> and \<open>Save\<close> to \<open>SAVE\<close>; and every input
  whose trimmed form contains no white space is returned in upper case, otherwise
  unchanged.
\<close>

theorem abbreviateOffer_examples:
  "abbreviateOffer rt (js ''Buy One Get One Free'') = js ''BOGOF'' \<and>
   abbreviateOffer rt (js ''2 For '' @ [163] @ js ''10'') = js ''2-4-10'' \<and>
   abbreviateOffer rt (js ''Save'') = js ''SAVE'' \<and>
   (list_all (\<lambda>c. \<not> isWhiteSpace c) (trim offer) \<longrightarrow>
      abbreviateOffer rt offer = toUpperCase rt offer)"
proof -
  have bogof: "abbreviateOffer rt (js ''Buy One Get One Free'') = js ''BOGOF''"
    by (simp add: abbreviate_eval)
  have two: "abbreviateOffer rt (js ''2 For '' @ [163] @ js ''10'') = js ''2-4-10''"
    by (simp add: abbreviate_eval)
  have save: "abbreviateOffer rt (js ''Save'') = js ''SAVE''"
    by (simp add: abbreviate_eval)
  have single: "abbreviateOffer rt offer = toUpperCase rt offer"
    if "list_all (\<lambda>c. \<not> isWhiteSpace c) (trim offer)"
  proof -
    have "isWhiteSpace 32" by (simp add: isWhiteSpace_def)
    with that have "32 \<notin> set (trim offer)"
      by (auto simp: list_all_iff)
    then show ?thesis by (simp add: abbreviateOffer_def)
  qed
  from bogof two save single show ?thesis by blast
qed

theorem abbreviateOffer_examples_witness:
  "list_all (\<lambda>c. \<not> isWhiteSpace c) (trim (js ''  Sale!'')) \<and>
   abbreviateOffer exampleRuntime (js ''  Sale!'') = js ''  SALE!''"
proof -
  have h: "list_all (\<lambda>c. \<not> isWhiteSpace c) (trim (js ''  Sale!''))"
    by (simp add: trim_def js_Nil js_Cons isWhiteSpace_def)
  from abbreviateOffer_examples [of exampleRuntime "js ''  Sale!''"] h
  have "abbreviateOffer exampleRuntime (js ''  Sale!'') = toUpperCase exampleRuntime (js ''  Sale!'')"
    by blast
  also have "\<dots> = js ''  SALE!''"
    by (simp add: toUpperCase_def js_Nil js_Cons char_class_defs)
  finally show ?thesis using h by simp
qed

section \<open>Evaluation of numbers\<close>

lemma digits_small: "n < 10 \<Longrightarrow> digits n = [48 + n]"
  by (simp add: digits.simps)

lemma digits_step: "10 \<le> n \<Longrightarrow> digits n = digits (n div 10) @ [48 + n mod 10]"
  by (subst digits.simps) simp

lemmas number_eval =
  toFixed2_def twoDecimals_def numOrZero_def toNumber_def Let_def digits_small digits_step
  js_Nil js_Cons

lemma roundedCoord_51_50: "roundedCoord rt (Num (Fin (514987 / 10000))) = js ''51.50''"
proof -
  have "\<lfloor>(514987 / 10000 * 100 + 1 / 2 :: rat)\<rfloor> = 5150"
    by (rule floor_unique) simp_all
  then show ?thesis
    by (simp add: number_eval)
qed

lemma roundedCoord_0_10: "roundedCoord rt (Num (Fin (- 1 / 10))) = js ''-0.10''"
proof -
  have "\<lfloor>(1 / 10 * 100 + 1 / 2 :: rat)\<rfloor> = 10"
    by (rule floor_unique) simp_all
  then show ?thesis
    by (simp add: number_eval)
qed

section \<open>locateStore: the cache key\<close>

lemma locateCacheKey_present:
  "locateCacheKey rt lat lon city postcode =
   js ''near:'' @
   join (js '','') (map (toLowerCase rt) ([lat, lon] @ present city @ present postcode))"
  by (cases city; cases postcode) (simp_all add: locateCacheKey_def present_def)

lemma toLowerCase_51_50: "toLowerCase rt (js ''51.50'') = js ''51.50''"
  by (simp add: toLowerCase_def js_Nil js_Cons char_class_defs)

lemma toLowerCase_0_10: "toLowerCase rt (js ''-0.10'') = js ''-0.10''"
  by (simp add: toLowerCase_def js_Nil js_Cons char_class_defs)

lemma toLowerCase_Nil: "toLowerCase rt [] = []"
  by (simp add: toLowerCase_def)

lemma locateCacheKey_undefined:
  "locateCacheKey rt (js ''51.50'') (js ''-0.10'') None None = js ''near:51.50,-0.10''"
  by (simp add: locateCacheKey_present present_def toLowerCase_51_50 toLowerCase_0_10)
     (simp add: js_Nil js_Cons)

lemma locateCacheKey_empty:
  "locateCacheKey rt (js ''51.50'') (js ''-0.10'') (Some []) (Some []) =
   js ''near:51.50,-0.10,,''"
  by (simp add: locateCacheKey_present present_def toLowerCase_51_50 toLowerCase_0_10
        toLowerCase_Nil)
     (simp add: js_Nil js_Cons)

lemma locateStore_hit:
  "locator c (locateCacheKey rt (roundedCoord rt lat0) (roundedCoord rt lon0) city postcode) = Some s
   \<Longrightarrow> locateStore rt up c lat0 lon0 city postcode = (Inr s, c, [])"
  by (simp add: locateStore_def Let_def)

lemma locateStore_miss:
  "locator c (locateCacheKey rt (roundedCoord rt lat0) (roundedCoord rt lon0) city postcode) = None
   \<Longrightarrow> locateStore rt up c lat0 lon0 city postcode =
     (let body = locateRequestBody rt (roundedCoord rt lat0) (roundedCoord rt lon0) city postcode;
          sent = [FindRequestedStores body]
      in case findRequestedStores up body of
           Inl e \<Rightarrow> (Inl e, c, sent)
         | Inr payload \<Rightarrow>
             (case firstStore rt payload of
                Inl e \<Rightarrow> (Inl e, c, sent)
              | Inr d \<Rightarrow>
                  (case toStore rt d of
                     Inl e \<Rightarrow> (Inl e, c, sent)
                   | Inr data \<Rightarrow>
                       (Inr data,
                        c\<lparr>locator := (locator c)
                          (locateCacheKey rt (roundedCoord rt lat0) (roundedCoord rt lon0)
                             city postcode \<mapsto> data)\<rparr>,
                        sent))))"
  by (simp add: locateStore_def Let_def)

text \<open>
  C1, as the code has it. A call of \<open>locateStore\<close> returns the Store cached under its
  key without a request to the site, and leaves the cache as it is; the key is the prefix
  \<open>near:\<close> followed by the rounded latitude, the rounded longitude and those of city
  and postcode that are not \<open>undefined\<close>, in this order, each in lower case, joined
  with commas. For coordinates that round to \<open>51.50\<close> and \<open>-0.10\<close> and with city
  and postcode \<open>undefined\<close> the key is \<open>near:51.50,-0.10\<close>, with no trailing
  commas; the key \<open>near:51.50,-0.10,,\<close> is the one of a call whose city and postcode
  are empty strings.
\<close>

theorem locateStore_cache_key:
  "(locator c
      (js ''near:'' @
       join (js '','')
         (map (toLowerCase rt)
            ([roundedCoord rt lat0, roundedCoord rt lon0] @ present city @ present postcode)))
      = Some s
    \<longrightarrow> locateStore rt up c lat0 lon0 city postcode = (Inr s, c, [])) \<and>
   (roundedCoord rt lat0 = js ''51.50'' \<and> roundedCoord rt lon0 = js ''-0.10'' \<longrightarrow>
      locateCacheKey rt (roundedCoord rt lat0) (roundedCoord rt lon0) None None =
        js ''near:51.50,-0.10'' \<and>
      locateCacheKey rt (roundedCoord rt lat0) (roundedCoord rt lon0) (Some []) (Some []) =
        js ''near:51.50,-0.10,,'' \<and>
      (locator c (js ''near:51.50,-0.10'') = Some s
         \<longrightarrow> locateStore rt up c lat0 lon0 None None = (Inr s, c, [])))"
proof (intro conjI impI)
  assume "locator c
      (js ''near:'' @
       join (js '','')
         (map (toLowerCase rt)
            ([roundedCoord rt lat0, roundedCoord rt lon0] @ present city @ present postcode)))
      = Some s"
  then show "locateStore rt up c lat0 lon0 city postcode = (Inr s, c, [])"
    by (simp only: locateCacheKey_present [symmetric] locateStore_hit)
next
  assume r: "roundedCoord rt lat0 = js ''51.50'' \<and> roundedCoord rt lon0 = js ''-0.10''"
  then show k: "locateCacheKey rt (roundedCoord rt lat0) (roundedCoord rt lon0) None None =
      js ''near:51.50,-0.10''"
    by (simp only: locateCacheKey_undefined)
  from r show "locateCacheKey rt (roundedCoord rt lat0) (roundedCoord rt lon0) (Some []) (Some []) =
      js ''near:51.50,-0.10,,''"
    by (simp only: locateCacheKey_empty)
  assume "locator c (js ''near:51.50,-0.10'') = Some s"
  with k show "locateStore rt up c lat0 lon0 None None = (Inr s, c, [])"
    by (simp only: locateStore_hit)
qed

lemma cacheWithStore_lookup: "locator (cacheWithStore k) k' = (if k' = k then Some exampleStore else None)"
  by (simp add: cacheWithStore_def)

theorem locateStore_cache_key_witness:
  "locator (cacheWithStore (js ''near:51.50,-0.10'')) (js ''near:51.50,-0.10'') = Some exampleStore \<and>
   roundedCoord exampleRuntime (Num (Fin (514987 / 10000))) = js ''51.50'' \<and>
   roundedCoord exampleRuntime (Num (Fin (- 1 / 10))) = js ''-0.10'' \<and>
   locateStore exampleRuntime offlineUpstream (cacheWithStore (js ''near:51.50,-0.10''))
     (Num (Fin (514987 / 10000))) (Num (Fin (- 1 / 10))) None None =
   (Inr exampleStore, cacheWithStore (js ''near:51.50,-0.10''), [])"
proof -
  have a: "roundedCoord exampleRuntime (Num (Fin (514987 / 10000))) = js ''51.50''"
    by (rule roundedCoord_51_50)
  have b: "roundedCoord exampleRuntime (Num (Fin (- 1 / 10))) = js ''-0.10''"
    by (rule roundedCoord_0_10)
  have h: "locator (cacheWithStore (js ''near:51.50,-0.10'')) (js ''near:51.50,-0.10'') =
      Some exampleStore"
    by (simp add: cacheWithStore_lookup)
  from locateStore_cache_key [of "cacheWithStore (js ''near:51.50,-0.10'')" exampleRuntime
      "Num (Fin (514987 / 10000))" "Num (Fin (- 1 / 10))" None None exampleStore offlineUpstream]
    a b h
  show ?thesis by blast
qed

text \<open>
  C1 as the specification words it fails: with a Store cached under
  \<open>near:51.50,-0.10,,\<close>, the call with these coordinates and no city or postcode
  does not find it, and sends a request to the site (which is down here).
\<close>

theorem locateStore_misses_key_with_commas:
  "locator (cacheWithStore (js ''near:51.50,-0.10,,'')) (js ''near:51.50,-0.10,,'') = Some exampleStore \<and>
   locateStore exampleRuntime offlineUpstream (cacheWithStore (js ''near:51.50,-0.10,,''))
     (Num (Fin (514987 / 10000))) (Num (Fin (- 1 / 10))) None None =
   (Inl (Rejected (js ''offline'') None),
    cacheWithStore (js ''near:51.50,-0.10,,''),
    [FindRequestedStores
       \<lparr> reqTown = [], reqPostCode = [], reqLatitude = js ''51.50'', reqLongitude = js ''-0.10'' \<rparr>])"
proof -
  have k: "locateCacheKey exampleRuntime (roundedCoord exampleRuntime (Num (Fin (514987 / 10000))))
      (roundedCoord exampleRuntime (Num (Fin (- 1 / 10)))) None None = js ''near:51.50,-0.10''"
    by (simp only: roundedCoord_51_50 roundedCoord_0_10 locateCacheKey_undefined)
  have ne: "js ''near:51.50,-0.10'' \<noteq> js ''near:51.50,-0.10,,''"
    by (simp add: js_Nil js_Cons)
  have miss: "locator (cacheWithStore (js ''near:51.50,-0.10,,''))
      (locateCacheKey exampleRuntime (roundedCoord exampleRuntime (Num (Fin (514987 / 10000))))
      (roundedCoord exampleRuntime (Num (Fin (- 1 / 10)))) None None) = None"
    using ne by (simp only: k cacheWithStore_lookup if_False)
  show ?thesis
    by (simp only: locateStore_miss [OF miss] roundedCoord_51_50 roundedCoord_0_10)
       (simp add: locateRequestBody_def offlineUpstream_def cacheWithStore_lookup)
qed

section \<open>locateStore: the upstream reply\<close>

lemma locateStore_sent:
  "snd (snd (locateStore rt up c lat0 lon0 city postcode)) =
   (if locator c (locateCacheKey rt (roundedCoord rt lat0) (roundedCoord rt lon0) city postcode) = None
    then [FindRequestedStores
            (locateRequestBody rt (roundedCoord rt lat0) (roundedCoord rt lon0) city postcode)]
    else [])"
  by (auto simp: locateStore_def Let_def split: option.splits sum.splits)

lemma locateStore_sent_miss:
  assumes "snd (snd (locateStore rt up c lat0 lon0 city postcode)) = [FindRequestedStores body]"
  shows "locator c (locateCacheKey rt (roundedCoord rt lat0) (roundedCoord rt lon0) city postcode) = None
         \<and> body = locateRequestBody rt (roundedCoord rt lat0) (roundedCoord rt lon0) city postcode"
  using assms unfolding locateStore_sent by (simp split: if_splits)

lemma capitalise_error: "capitalise rt ws = Inl e \<Longrightarrow> e = TypeError"
  by (induction ws arbitrary: e) (auto split: if_splits sum.splits)

lemma toStore_error: "toStore rt d = Inl e \<Longrightarrow> e = TypeError"
  by (auto simp: toStore_def asString_def dest: capitalise_error
      split: option.splits sum.splits jsval.splits)

lemma firstStore_HttpError:
  "firstStore rt payload = Inl (HttpError m st) \<longleftrightarrow>
   Stores payload = IsNull \<and> truthy (ErrorMsg payload) \<and>
   m = toString rt (ErrorMsg payload) \<and> st = 400"
  by (auto simp: firstStore_def split: field.splits list.splits)

lemma locateStore_reply:
  assumes "snd (snd (locateStore rt up c lat0 lon0 city postcode)) = [FindRequestedStores body]"
      and "findRequestedStores up body = Inr payload"
  shows "locateStore rt up c lat0 lon0 city postcode =
     (case firstStore rt payload of
        Inl e \<Rightarrow> (Inl e, c, [FindRequestedStores body])
      | Inr d \<Rightarrow>
          (case toStore rt d of
             Inl e \<Rightarrow> (Inl e, c, [FindRequestedStores body])
           | Inr data \<Rightarrow>
               (Inr data,
                c\<lparr>locator := (locator c)
                  (locateCacheKey rt (roundedCoord rt lat0) (roundedCoord rt lon0) city postcode
                     \<mapsto> data)\<rparr>,
                [FindRequestedStores body])))"
proof -
  from locateStore_sent_miss [OF assms(1)]
  have miss: "locator c (locateCacheKey rt (roundedCoord rt lat0) (roundedCoord rt lon0) city postcode) = None"
    and body: "body = locateRequestBody rt (roundedCoord rt lat0) (roundedCoord rt lon0) city postcode"
    by simp_all
  show ?thesis
    using assms(2) unfolding locateStore_miss [OF miss] body by (simp add: Let_def)
qed

text \<open>
  C5. When a call of \<open>locateStore\<close> sends its request and the decoded payload has
  \<open>Stores\<close> equal to \<open>null\<close> and a non-empty string as \<open>ErrorMsg\<close>, the call
  fails with an \<open>HttpError\<close> whose message is that string and whose status is 400
  (also the status of the response), no Store is returned and the cache is unchanged.
\<close>

theorem locateStore_no_stores:
  assumes "snd (snd (locateStore rt up c lat0 lon0 city postcode)) = [FindRequestedStores body]"
      and "findRequestedStores up body = Inr payload"
      and "Stores payload = IsNull"
      and "ErrorMsg payload = Str msg"
      and "msg \<noteq> []"
  shows "locateStore rt up c lat0 lon0 city postcode =
           (Inl (HttpError msg 400), c, [FindRequestedStores body]) \<and>
         statusCode (HttpError msg 400) = Some 400 \<and>
         responseStatus (HttpError msg 400) = 400"
proof -
  have "firstStore rt payload = Inl (HttpError msg 400)"
    using assms(3-5) by (simp add: firstStore_def truthy_def toString_def)
  then show ?thesis
    by (simp add: locateStore_reply [OF assms(1,2)] responseStatus_def)
qed

text \<open>
  C10. When a call of \<open>locateStore\<close> sends its request and the decoded payload has
  \<open>Stores\<close> equal to \<open>null\<close> and an \<open>ErrorMsg\<close> that is absent, \<open>null\<close> or
  the empty string, the guarded throw is not taken and \<open>Stores[0]\<close> fails with a
  \<open>TypeError\<close>, which carries no status code (the response has the status 500). The
  call fails with an \<open>HttpError\<close> exactly when \<open>Stores\<close> is \<open>null\<close> and
  \<open>ErrorMsg\<close> is truthy.
\<close>

theorem locateStore_null_stores_without_message:
  assumes "snd (snd (locateStore rt up c lat0 lon0 city postcode)) = [FindRequestedStores body]"
      and "findRequestedStores up body = Inr payload"
  shows "(Stores payload = IsNull \<and>
          (ErrorMsg payload = Undefined \<or> ErrorMsg payload = Null \<or> ErrorMsg payload = Str [])
          \<longrightarrow> locateStore rt up c lat0 lon0 city postcode =
                (Inl TypeError, c, [FindRequestedStores body])) \<and>
         statusCode TypeError = None \<and>
         responseStatus TypeError = 500 \<and>
         ((\<exists>m st. fst (locateStore rt up c lat0 lon0 city postcode) = Inl (HttpError m st)) \<longleftrightarrow>
          Stores payload = IsNull \<and> truthy (ErrorMsg payload))"
proof (intro conjI impI)
  assume h: "Stores payload = IsNull \<and>
     (ErrorMsg payload = Undefined \<or> ErrorMsg payload = Null \<or> ErrorMsg payload = Str [])"
  then have "\<not> truthy (ErrorMsg payload)"
    by (auto simp: truthy_def)
  with h have "firstStore rt payload = Inl TypeError"
    by (simp add: firstStore_def)
  then show "locateStore rt up c lat0 lon0 city postcode =
      (Inl TypeError, c, [FindRequestedStores body])"
    by (simp add: locateStore_reply [OF assms])
next
  show "statusCode TypeError = None" by simp
  show "responseStatus TypeError = 500" by (simp add: responseStatus_def)
  show "(\<exists>m st. fst (locateStore rt up c lat0 lon0 city postcode) = Inl (HttpError m st)) \<longleftrightarrow>
        Stores payload = IsNull \<and> truthy (ErrorMsg payload)"
  proof
    assume "\<exists>m st. fst (locateStore rt up c lat0 lon0 city postcode) = Inl (HttpError m st)"
    then obtain m st where
      e: "fst (locateStore rt up c lat0 lon0 city postcode) = Inl (HttpError m st)"
      by blast
    have "firstStore rt payload = Inl (HttpError m st)"
    proof (cases "firstStore rt payload")
      case (Inl err)
      with e show ?thesis
        by (simp add: locateStore_reply [OF assms])
    next
      case (Inr d)
      with e show ?thesis
        by (cases "toStore rt d")
           (auto simp: locateStore_reply [OF assms] dest: toStore_error)
    qed
    then show "Stores payload = IsNull \<and> truthy (ErrorMsg payload)"
      by (simp add: firstStore_HttpError)
  next
    assume "Stores payload = IsNull \<and> truthy (ErrorMsg payload)"
    then have "firstStore rt payload = Inl (HttpError (toString rt (ErrorMsg payload)) 400)"
      by (simp add: firstStore_def)
    then have "fst (locateStore rt up c lat0 lon0 city postcode) =
        Inl (HttpError (toString rt (ErrorMsg payload)) 400)"
      by (simp add: locateStore_reply [OF assms])
    then show "\<exists>m st. fst (locateStore rt up c lat0 lon0 city postcode) = Inl (HttpError m st)"
      by blast
  qed
qed

lemma example_body:
  "locateRequestBody rt (js ''51.50'') (js ''-0.10'') None None =
   \<lparr> reqTown = [], reqPostCode = [], reqLatitude = js ''51.50'', reqLongitude = js ''-0.10'' \<rparr>"
  by (simp add: locateRequestBody_def)

lemma example_sent:
  "snd (snd (locateStore rt up emptyCache (Num (Fin (514987 / 10000))) (Num (Fin (- 1 / 10)))
     None None)) =
   [FindRequestedStores
      \<lparr> reqTown = [], reqPostCode = [], reqLatitude = js ''51.50'', reqLongitude = js ''-0.10'' \<rparr>]"
  by (simp only: locateStore_sent roundedCoord_51_50 roundedCoord_0_10 example_body)
     (simp add: emptyCache_def)

theorem locateStore_no_stores_witness:
  "locateStore exampleRuntime
     (locatorReplies \<lparr> Stores = IsNull, ErrorMsg = Str (js ''No stores found'') \<rparr>)
     emptyCache (Num (Fin (514987 / 10000))) (Num (Fin (- 1 / 10))) None None =
   (Inl (HttpError (js ''No stores found'') 400), emptyCache,
    [FindRequestedStores
       \<lparr> reqTown = [], reqPostCode = [], reqLatitude = js ''51.50'', reqLongitude = js ''-0.10'' \<rparr>])"
proof -
  have "js ''No stores found'' \<noteq> []"
    by (simp add: js_Cons)
  from locateStore_no_stores [OF example_sent _ _ _ this,
      of "locatorReplies \<lparr> Stores = IsNull, ErrorMsg = Str (js ''No stores found'') \<rparr>"
         "\<lparr> Stores = IsNull, ErrorMsg = Str (js ''No stores found'') \<rparr>" exampleRuntime]
  show ?thesis
    by (simp add: locatorReplies_def)
qed

theorem locateStore_null_stores_without_message_witness:
  "locateStore exampleRuntime (locatorReplies \<lparr> Stores = IsNull, ErrorMsg = Str [] \<rparr>)
     emptyCache (Num (Fin (514987 / 10000))) (Num (Fin (- 1 / 10))) None None =
   (Inl TypeError, emptyCache,
    [FindRequestedStores
       \<lparr> reqTown = [], reqPostCode = [], reqLatitude = js ''51.50'', reqLongitude = js ''-0.10'' \<rparr>])"
proof -
  from locateStore_null_stores_without_message [OF example_sent,
      of "locatorReplies \<lparr> Stores = IsNull, ErrorMsg = Str [] \<rparr>"
         "\<lparr> Stores = IsNull, ErrorMsg = Str [] \<rparr>" exampleRuntime]
  show ?thesis
    by (simp add: locatorReplies_def)
qed

section \<open>checkStoreStock\<close>

lemma checkStoreStock_cache:
  "fst (snd (checkStoreStock rt up c styleCode sizeArg storeIdArg quantity0)) = c"
  by (simp add: checkStoreStock_def Let_def split: sum.splits field.splits)

lemma checkStoreStock_independent:
  "fst (checkStoreStock rt up c styleCode sizeArg storeIdArg quantity0) =
   fst (checkStoreStock rt up c' styleCode sizeArg storeIdArg quantity0) \<and>
   snd (snd (checkStoreStock rt up c styleCode sizeArg storeIdArg quantity0)) =
   snd (snd (checkStoreStock rt up c' styleCode sizeArg storeIdArg quantity0))"
  by (simp add: checkStoreStock_def Let_def split: sum.splits field.splits)

lemma checkStoreStock_sent:
  "\<exists>body. snd (snd (checkStoreStock rt up c styleCode sizeArg storeIdArg quantity0)) =
     [StoreStockAjaxRequest body]"
  by (simp add: checkStoreStock_def Let_def split: sum.splits field.splits)

lemma checkStoreStock_reply:
  assumes "snd (snd (checkStoreStock rt up c styleCode sizeArg storeIdArg quantity0)) =
             [StoreStockAjaxRequest body]"
      and "storeStockAjaxRequest up body = Inr data"
  shows "checkStoreStock rt up c styleCode sizeArg storeIdArg quantity0 =
     (case prod_sNo_Stock data of
        Has d \<Rightarrow>
          (Inr \<lparr> inStock = HasStock d, stockStoreName = StoreName d,
                 stockStoreId = StoreNo d, stockStoreAddress = StoreAddress d \<rparr>,
           c, [StoreStockAjaxRequest body])
      | _ \<Rightarrow> (Inl (Error (js ''Product unavailable'')), c, [StoreStockAjaxRequest body]))"
proof -
  have "snd (snd (checkStoreStock rt up c styleCode sizeArg storeIdArg quantity0)) =
      [StoreStockAjaxRequest
         \<lparr> prod_CCStoreNo = toString rt storeIdArg,
           prod_SizeId = toString rt styleCode @ toString rt sizeArg,
           prod_Qty = toString rt
             (if truthy (if quantity0 = Undefined then Num (Fin 1) else quantity0)
              then (if quantity0 = Undefined then Num (Fin 1) else quantity0)
              else Num (Fin 1)) \<rparr>]"
    by (simp add: checkStoreStock_def Let_def split: sum.splits field.splits)
  with assms(1) have
    "body = \<lparr> prod_CCStoreNo = toString rt storeIdArg,
           prod_SizeId = toString rt styleCode @ toString rt sizeArg,
           prod_Qty = toString rt
             (if truthy (if quantity0 = Undefined then Num (Fin 1) else quantity0)
              then (if quantity0 = Undefined then Num (Fin 1) else quantity0)
              else Num (Fin 1)) \<rparr>"
    by simp
  with assms(2) show ?thesis
    by (simp add: checkStoreStock_def Let_def split: field.splits)
qed

lemma checkStoreStock_result:
  assumes "snd (snd (checkStoreStock rt up c styleCode sizeArg storeIdArg quantity0)) =
             [StoreStockAjaxRequest body]"
  shows "fst (checkStoreStock rt up c styleCode sizeArg storeIdArg quantity0) =
     (case storeStockAjaxRequest up body of
        Inl e \<Rightarrow> Inl e
      | Inr data \<Rightarrow>
          (case prod_sNo_Stock data of
             Has d \<Rightarrow>
               Inr \<lparr> inStock = HasStock d, stockStoreName = StoreName d,
                     stockStoreId = StoreNo d, stockStoreAddress = StoreAddress d \<rparr>
           | _ \<Rightarrow> Inl (Error (js ''Product unavailable''))))"
proof (cases "storeStockAjaxRequest up body")
  case (Inl e)
  have "snd (snd (checkStoreStock rt up c styleCode sizeArg storeIdArg quantity0)) =
      [StoreStockAjaxRequest
         \<lparr> prod_CCStoreNo = toString rt storeIdArg,
           prod_SizeId = toString rt styleCode @ toString rt sizeArg,
           prod_Qty = toString rt
             (if truthy (if quantity0 = Undefined then Num (Fin 1) else quantity0)
              then (if quantity0 = Undefined then Num (Fin 1) else quantity0)
              else Num (Fin 1)) \<rparr>]"
    by (simp add: checkStoreStock_def Let_def split: sum.splits field.splits)
  with assms have
    "body = \<lparr> prod_CCStoreNo = toString rt storeIdArg,
           prod_SizeId = toString rt styleCode @ toString rt sizeArg,
           prod_Qty = toString rt
             (if truthy (if quantity0 = Undefined then Num (Fin 1) else quantity0)
              then (if quantity0 = Undefined then Num (Fin 1) else quantity0)
              else Num (Fin 1)) \<rparr>"
    by simp
  with Inl show ?thesis
    by (simp add: checkStoreStock_def Let_def)
next
  case (Inr data)
  then show ?thesis
    by (simp add: checkStoreStock_reply [OF assms Inr] split: field.splits)
qed

text \<open>
  C8. A call of \<open>checkStoreStock\<close>, whatever its arguments, leaves the caches as they
  were; its result and the request it sends are the same on every cache, so nothing is
  read from one; it sends exactly one request to the site each time; and two calls whose
  requests get the same reply have the same result, whatever else differs.
\<close>

theorem checkStoreStock_uses_no_cache:
  "fst (snd (checkStoreStock rt up c styleCode sizeArg storeIdArg quantity0)) = c \<and>
   fst (checkStoreStock rt up c styleCode sizeArg storeIdArg quantity0) =
     fst (checkStoreStock rt up c' styleCode sizeArg storeIdArg quantity0) \<and>
   snd (snd (checkStoreStock rt up c styleCode sizeArg storeIdArg quantity0)) =
     snd (snd (checkStoreStock rt up c' styleCode sizeArg storeIdArg quantity0)) \<and>
   length (snd (snd (checkStoreStock rt up c styleCode sizeArg storeIdArg quantity0))) = 1 \<and>
   (snd (snd (checkStoreStock rt up c styleCode sizeArg storeIdArg quantity0)) =
      [StoreStockAjaxRequest body] \<and>
    snd (snd (checkStoreStock rt' up' c' styleCode' sizeArg' storeIdArg' quantity0')) =
      [StoreStockAjaxRequest body'] \<and>
    storeStockAjaxRequest up body = storeStockAjaxRequest up' body' \<longrightarrow>
      fst (checkStoreStock rt up c styleCode sizeArg storeIdArg quantity0) =
      fst (checkStoreStock rt' up' c' styleCode' sizeArg' storeIdArg' quantity0'))"
proof -
  have "snd (snd (checkStoreStock rt up c styleCode sizeArg storeIdArg quantity0)) =
      [StoreStockAjaxRequest body] \<and>
    snd (snd (checkStoreStock rt' up' c' styleCode' sizeArg' storeIdArg' quantity0')) =
      [StoreStockAjaxRequest body'] \<and>
    storeStockAjaxRequest up body = storeStockAjaxRequest up' body' \<longrightarrow>
      fst (checkStoreStock rt up c styleCode sizeArg storeIdArg quantity0) =
      fst (checkStoreStock rt' up' c' styleCode' sizeArg' storeIdArg' quantity0')"
    by (simp add: checkStoreStock_result)
  with checkStoreStock_cache [of rt up c styleCode sizeArg storeIdArg quantity0]
    checkStoreStock_independent [of rt up c styleCode sizeArg storeIdArg quantity0 c']
    checkStoreStock_sent [of rt up c styleCode sizeArg storeIdArg quantity0]
  show ?thesis
    by auto
qed

text \<open>
  C9, as the code has it. The code tests the value under \<open>_prod_sNo_Stock\<close> for
  truthiness. When the decoded payload of the stock request lacks the key, or has it
  with the value \<open>null\<close>, the call fails with the plain \<open>Error\<close> of message
  \<open>Product unavailable\<close>, which has no status code, so that the response has the
  default status 500; and the call returns a result exactly when the key holds its
  object.
\<close>

theorem checkStoreStock_product_unavailable:
  assumes "snd (snd (checkStoreStock rt up c styleCode sizeArg storeIdArg quantity0)) =
             [StoreStockAjaxRequest body]"
      and "storeStockAjaxRequest up body = Inr data"
  shows "(prod_sNo_Stock data = Absent \<longrightarrow>
            fst (checkStoreStock rt up c styleCode sizeArg storeIdArg quantity0) =
              Inl (Error (js ''Product unavailable''))) \<and>
         statusCode (Error (js ''Product unavailable'')) = None \<and>
         responseStatus (Error (js ''Product unavailable'')) = 500 \<and>
         ((\<exists>r. fst (checkStoreStock rt up c styleCode sizeArg storeIdArg quantity0) = Inr r) \<longleftrightarrow>
          (\<exists>d. prod_sNo_Stock data = Has d)) \<and>
         ((\<forall>d. prod_sNo_Stock data \<noteq> Has d) \<longrightarrow>
            fst (checkStoreStock rt up c styleCode sizeArg storeIdArg quantity0) =
              Inl (Error (js ''Product unavailable''))) \<and>
         (prod_sNo_Stock data = IsNull \<longrightarrow>
            checkStoreStock rt up c styleCode sizeArg storeIdArg quantity0 =
              (Inl (Error (js ''Product unavailable'')), c, [StoreStockAjaxRequest body]))"
  by (cases "prod_sNo_Stock data")
     (simp_all add: checkStoreStock_reply [OF assms] responseStatus_def)

theorem checkStoreStock_uses_no_cache_witness:
  "fst (snd (checkStoreStock exampleRuntime (stockReplies \<lparr> prod_sNo_Stock = Has exampleStock \<rparr>)
     cacheWithProduct (Str (js ''12345'')) (Str (js ''050'')) (Str (js ''1234'')) Undefined)) =
   cacheWithProduct"
  by (rule checkStoreStock_uses_no_cache [THEN conjunct1])

lemma example_stock_sent:
  "snd (snd (checkStoreStock exampleRuntime up c (Str (js ''12345'')) (Str (js ''050''))
     (Str (js ''1234'')) Undefined)) =
   [StoreStockAjaxRequest
      \<lparr> prod_CCStoreNo = js ''1234'', prod_SizeId = js ''12345050'', prod_Qty = js ''1'' \<rparr>]"
  by (simp add: checkStoreStock_def Let_def toString_def truthy_def numToString_def
      exampleRuntime_def digits_small js_Nil js_Cons split: sum.splits field.splits)

theorem checkStoreStock_product_unavailable_witness:
  "checkStoreStock exampleRuntime (stockReplies \<lparr> prod_sNo_Stock = Absent \<rparr>) emptyCache
     (Str (js ''12345'')) (Str (js ''050'')) (Str (js ''1234'')) Undefined =
   (Inl (Error (js ''Product unavailable'')), emptyCache,
    [StoreStockAjaxRequest
      \<lparr> prod_CCStoreNo = js ''1234'', prod_SizeId = js ''12345050'', prod_Qty = js ''1'' \<rparr>]) \<and>
   fst (checkStoreStock exampleRuntime (stockReplies \<lparr> prod_sNo_Stock = Has exampleStock \<rparr>)
     emptyCache (Str (js ''12345'')) (Str (js ''050'')) (Str (js ''1234'')) Undefined) =
   Inr \<lparr> inStock = Bool True, stockStoreName = Str (js ''London Bridge''),
         stockStoreId = Num (Fin 1234),
         stockStoreAddress = Str (js ''1 High Street, London, SE1 1AA'') \<rparr>"
proof -
  have r: "storeStockAjaxRequest (stockReplies payload) body = Inr payload" for payload body
    by (simp add: stockReplies_def)
  from checkStoreStock_product_unavailable [OF example_stock_sent r,
      of "\<lparr> prod_sNo_Stock = Absent \<rparr>" emptyCache]
  have "fst (checkStoreStock exampleRuntime (stockReplies \<lparr> prod_sNo_Stock = Absent \<rparr>) emptyCache
     (Str (js ''12345'')) (Str (js ''050'')) (Str (js ''1234'')) Undefined) =
     Inl (Error (js ''Product unavailable''))"
    by simp
  moreover have "fst (snd (checkStoreStock exampleRuntime (stockReplies \<lparr> prod_sNo_Stock = Absent \<rparr>)
     emptyCache (Str (js ''12345'')) (Str (js ''050'')) (Str (js ''1234'')) Undefined)) = emptyCache"
    by (rule checkStoreStock_cache)
  ultimately have first:
    "checkStoreStock exampleRuntime (stockReplies \<lparr> prod_sNo_Stock = Absent \<rparr>) emptyCache
     (Str (js ''12345'')) (Str (js ''050'')) (Str (js ''1234'')) Undefined =
     (Inl (Error (js ''Product unavailable'')), emptyCache,
      [StoreStockAjaxRequest
        \<lparr> prod_CCStoreNo = js ''1234'', prod_SizeId = js ''12345050'', prod_Qty = js ''1'' \<rparr>])"
    using example_stock_sent [of "stockReplies \<lparr> prod_sNo_Stock = Absent \<rparr>" emptyCache]
    by (simp add: prod_eq_iff)
  have "fst (checkStoreStock exampleRuntime (stockReplies \<lparr> prod_sNo_Stock = Has exampleStock \<rparr>)
     emptyCache (Str (js ''12345'')) (Str (js ''050'')) (Str (js ''1234'')) Undefined) =
   Inr \<lparr> inStock = Bool True, stockStoreName = Str (js ''London Bridge''),
         stockStoreId = Num (Fin 1234),
         stockStoreAddress = Str (js ''1 High Street, London, SE1 1AA'') \<rparr>"
    by (simp add: checkStoreStock_reply [OF example_stock_sent r] exampleStock_def)
  with first show ?thesis by simp
qed

text \<open>
  C9 as the specification words it fails: a payload that has the key
  \<open>_prod_sNo_Stock\<close> with the value \<open>null\<close> does not lack the key, and the call
  still returns no result but fails with \<open>Product unavailable\<close>.
\<close>

theorem checkStoreStock_null_field_unavailable:
  "prod_sNo_Stock \<lparr> prod_sNo_Stock = IsNull \<rparr> \<noteq> (Absent :: rawStock field) \<and>
   checkStoreStock exampleRuntime (stockReplies \<lparr> prod_sNo_Stock = IsNull \<rparr>) emptyCache
     (Str (js ''12345'')) (Str (js ''050'')) (Str (js ''1234'')) Undefined =
   (Inl (Error (js ''Product unavailable'')), emptyCache,
    [StoreStockAjaxRequest
      \<lparr> prod_CCStoreNo = js ''1234'', prod_SizeId = js ''12345050'', prod_Qty = js ''1'' \<rparr>])"
proof -
  have r: "storeStockAjaxRequest (stockReplies \<lparr> prod_sNo_Stock = IsNull \<rparr>)
      \<lparr> prod_CCStoreNo = js ''1234'', prod_SizeId = js ''12345050'', prod_Qty = js ''1'' \<rparr> =
      Inr \<lparr> prod_sNo_Stock = IsNull \<rparr>"
    by (simp add: stockReplies_def)
  have "checkStoreStock exampleRuntime (stockReplies \<lparr> prod_sNo_Stock = IsNull \<rparr>) emptyCache
     (Str (js ''12345'')) (Str (js ''050'')) (Str (js ''1234'')) Undefined =
   (Inl (Error (js ''Product unavailable'')), emptyCache,
    [StoreStockAjaxRequest
      \<lparr> prod_CCStoreNo = js ''1234'', prod_SizeId = js ''12345050'', prod_Qty = js ''1'' \<rparr>])"
    by (simp add: checkStoreStock_reply [OF example_stock_sent r])
  then show ?thesis by simp
qed

section \<open>getProductInfo\<close>

lemma fetchWebpage_fresh:
  assumes "pageFresh c (js ''page@sz:'' @ toLowerCase rt p) now"
  shows "\<exists>e. products c (js ''page@sz:'' @ toLowerCase rt p) = Some e \<and>
     timestamp e \<noteq> 0 \<and> now - timestamp e < 60000 \<and>
     fetchWebpage rt up c now (Some p) (Some 60000) = (Inr (CachedResult (cachedValue e)), [])"
  using assms
  by (cases "products c (js ''page@sz:'' @ toLowerCase rt p)")
     (simp_all add: fetchWebpage_def pageFresh_def Let_def)

lemma fetchWebpage_stale:
  assumes "\<not> pageFresh c (js ''page@sz:'' @ toLowerCase rt p) now"
  shows "fetchWebpage rt up c now (Some p) (Some 60000) =
     (case fromURL up p of
        Inl e \<Rightarrow> (Inl e, [FromURL p])
      | Inr page \<Rightarrow>
          (Inr (FreshResult page (setCache (js ''page@sz:'' @ toLowerCase rt p) 60000)),
           [FromURL p]))"
  using assms
  by (cases "products c (js ''page@sz:'' @ toLowerCase rt p)")
     (auto simp: fetchWebpage_def pageFresh_def Let_def)

lemma getProductInfo_fetch:
  "getProductInfo rt up c now nowStore s sid =
     (case fetchWebpage rt up c now (Some (productPath (baseStyle s))) (Some 60000) of
        (Inl e, sent) \<Rightarrow> (Inl e, c, sent)
      | (Inr (CachedResult v), sent) \<Rightarrow> (Inr v, c, sent)
      | (Inr (FreshResult jsdom setC), sent) \<Rightarrow>
          (case parseProduct rt jsdom of
             Inl e \<Rightarrow> (Inl e, c, sent)
           | Inr productInfo \<Rightarrow> (Inr productInfo, setC productInfo nowStore c, sent)))"
  unfolding getProductInfo_def baseStyle_def Let_def ..

lemma getProductInfo_fresh:
  assumes "pageFresh c (pageKey rt (baseStyle s)) now"
  shows "\<exists>e. products c (pageKey rt (baseStyle s)) = Some e \<and>
     timestamp e \<noteq> 0 \<and> now - timestamp e < 60000 \<and>
     getProductInfo rt up c now nowStore s sid = (Inr (cachedValue e), c, [])"
proof -
  from fetchWebpage_fresh [OF assms, of up] obtain e where
    "products c (pageKey rt (baseStyle s)) = Some e"
    "timestamp e \<noteq> 0" "now - timestamp e < 60000"
    "fetchWebpage rt up c now (Some (productPath (baseStyle s))) (Some 60000) =
       (Inr (CachedResult (cachedValue e)), [])"
    by blast
  then show ?thesis
    by (simp add: getProductInfo_fetch)
qed

lemma getProductInfo_hit:
  assumes "products c (pageKey rt (baseStyle s)) = Some e"
      and "timestamp e \<noteq> 0" and "now - timestamp e < 60000"
  shows "getProductInfo rt up c now nowStore s sid = (Inr (cachedValue e), c, [])"
proof -
  from assms have "pageFresh c (pageKey rt (baseStyle s)) now"
    by (simp add: pageFresh_def)
  from getProductInfo_fresh [OF this, of up nowStore sid] assms(1) show ?thesis
    by auto
qed

lemma getProductInfo_stale:
  assumes "\<not> pageFresh c (pageKey rt (baseStyle s)) now"
  shows "getProductInfo rt up c now nowStore s sid =
     (case fromURL up (productPath (baseStyle s)) of
        Inl e \<Rightarrow> (Inl e, c, [FromURL (productPath (baseStyle s))])
      | Inr page \<Rightarrow>
          (case parseProduct rt page of
             Inl e \<Rightarrow> (Inl e, c, [FromURL (productPath (baseStyle s))])
           | Inr p \<Rightarrow>
               (Inr p,
                c\<lparr>products := (products c)
                  (pageKey rt (baseStyle s) \<mapsto> \<lparr> timestamp = nowStore, cachedValue = p \<rparr>)\<rparr>,
                [FromURL (productPath (baseStyle s))])))"
  by (simp add: getProductInfo_fetch fetchWebpage_stale [OF assms] setCache_def
      split: sum.splits)

lemma getProductInfo_sent:
  "snd (snd (getProductInfo rt up c now nowStore s sid)) =
   (if pageFresh c (pageKey rt (baseStyle s)) now then []
    else [FromURL (productPath (baseStyle s))])"
proof (cases "pageFresh c (pageKey rt (baseStyle s)) now")
  case True
  from getProductInfo_fresh [OF True, of up nowStore sid] True show ?thesis
    by auto
next
  case False
  then show ?thesis
    by (simp add: getProductInfo_stale [OF False] split: sum.splits)
qed

lemma baseStyle_strip: "length suffix = 3 \<Longrightarrow> 5 \<le> length base \<Longrightarrow> baseStyle (base @ suffix) = base"
  by (simp add: baseStyle_def)

lemma baseStyle_short: "length s < 8 \<Longrightarrow> baseStyle s = s"
  by (simp add: baseStyle_def)

lemma baseStyle_eight: "length s = 8 \<Longrightarrow> baseStyle s = take 5 s"
  by (simp add: baseStyle_def)

lemma pageFresh_empty: "products c = Map.empty \<Longrightarrow> \<not> pageFresh c k now"
  by (simp add: pageFresh_def)

text \<open>
  C6. When the length of the style code minus 3 is at least 5, the page requested is the
  one of the code without its last three characters (the first five of a code of length
  8); a shorter code is requested as it is. A call sends no request or this one, and on
  an empty product cache it sends this one.
\<close>

theorem getProductInfo_style_code:
  "(length suffix = 3 \<and> 5 \<le> length base \<longrightarrow>
      (snd (snd (getProductInfo rt up c now nowStore (base @ suffix) sid)) = [] \<or>
       snd (snd (getProductInfo rt up c now nowStore (base @ suffix) sid)) =
         [FromURL (js ''/Products/Product-'' @ base)]) \<and>
      (products c = Map.empty \<longrightarrow>
       snd (snd (getProductInfo rt up c now nowStore (base @ suffix) sid)) =
         [FromURL (js ''/Products/Product-'' @ base)])) \<and>
   (length s = 8 \<longrightarrow>
      (snd (snd (getProductInfo rt up c now nowStore s sid)) = [] \<or>
       snd (snd (getProductInfo rt up c now nowStore s sid)) =
         [FromURL (js ''/Products/Product-'' @ take 5 s)]) \<and>
      (products c = Map.empty \<longrightarrow>
       snd (snd (getProductInfo rt up c now nowStore s sid)) =
         [FromURL (js ''/Products/Product-'' @ take 5 s)])) \<and>
   (int (length s) - 3 < 5 \<longrightarrow>
      (snd (snd (getProductInfo rt up c now nowStore s sid)) = [] \<or>
       snd (snd (getProductInfo rt up c now nowStore s sid)) =
         [FromURL (js ''/Products/Product-'' @ s)]) \<and>
      (products c = Map.empty \<longrightarrow>
       snd (snd (getProductInfo rt up c now nowStore s sid)) =
         [FromURL (js ''/Products/Product-'' @ s)]))"
  by (simp add: getProductInfo_sent baseStyle_strip baseStyle_short baseStyle_eight
      pageFresh_empty)

lemma example_parse: "parseProduct exampleRuntime examplePage = Inr exampleProduct"
  by (simp add: parseProduct_def examplePage_def exampleProduct_def asString_def toNumber_def
      toSizeEntry_def substrLast_def ignoredOffers_def exampleRuntime_def abbreviate_eval)

section \<open>getProductInfo: the page cache\<close>

lemma getProductInfo_fetched:
  assumes "getProductInfo rt up c now nowStore s sid = (Inr p, c1, [FromURL path])"
  shows "path = productPath (baseStyle s) \<and>
         (\<exists>page. fromURL up path = Inr page \<and> parseProduct rt page = Inr p) \<and>
         c1 = c\<lparr>products := (products c)
                (pageKey rt (baseStyle s) \<mapsto> \<lparr> timestamp = nowStore, cachedValue = p \<rparr>)\<rparr>"
proof -
  have stale: "\<not> pageFresh c (pageKey rt (baseStyle s)) now"
    using assms getProductInfo_sent [of rt up c now nowStore s sid]
    by (auto split: if_splits)
  show ?thesis
    using assms unfolding getProductInfo_stale [OF stale]
    by (auto split: sum.splits)
qed

text \<open>
  C4. When a call of \<open>getProductInfo\<close> fetched the page and stored its product at the
  time \<open>store1\<close> (the clock is not 0), the product and this time are in the cache under
  \<open>page@sz:\<close> followed by the path in lower case, and a call for the same style code
  at a time less than 60000 ms after \<open>store1\<close> sends no request, returns this product
  and leaves the cache as it is. So does every call that finds an entry younger than
  60000 ms. A call that finds an entry of 60000 ms or more fetches the page again, and when
  the page parses it returns the new product and overwrites the entry with the product
  and the time of the store.
\<close>

theorem getProductInfo_page_cache:
  "(getProductInfo rt up c now1 store1 s sid = (Inr p, c1, [FromURL path]) \<and>
    store1 \<noteq> 0 \<and> now2 - store1 < 60000 \<longrightarrow>
      products c1 (pageKey rt (baseStyle s)) = Some \<lparr> timestamp = store1, cachedValue = p \<rparr> \<and>
      getProductInfo rt up2 c1 now2 store2 s sid2 = (Inr p, c1, [])) \<and>
   (products c (pageKey rt (baseStyle s)) = Some e \<and>
    timestamp e \<noteq> 0 \<and> now - timestamp e < 60000 \<longrightarrow>
      getProductInfo rt up c now nowStore s sid = (Inr (cachedValue e), c, [])) \<and>
   (products c (pageKey rt (baseStyle s)) = Some e \<and> \<not> now - timestamp e < 60000 \<longrightarrow>
      snd (snd (getProductInfo rt up c now nowStore s sid)) =
        [FromURL (productPath (baseStyle s))] \<and>
      (\<forall>page p'.
         fromURL up (productPath (baseStyle s)) = Inr page \<and> parseProduct rt page = Inr p' \<longrightarrow>
         getProductInfo rt up c now nowStore s sid =
           (Inr p',
            c\<lparr>products := (products c)
              (pageKey rt (baseStyle s) \<mapsto> \<lparr> timestamp = nowStore, cachedValue = p' \<rparr>)\<rparr>,
            [FromURL (productPath (baseStyle s))])))"
proof (intro conjI impI allI)
  assume h: "getProductInfo rt up c now1 store1 s sid = (Inr p, c1, [FromURL path]) \<and>
    store1 \<noteq> 0 \<and> now2 - store1 < 60000"
  from getProductInfo_fetched [of rt up c now1 store1 s sid p c1 path] h
  have c1: "c1 = c\<lparr>products := (products c)
      (pageKey rt (baseStyle s) \<mapsto> \<lparr> timestamp = store1, cachedValue = p \<rparr>)\<rparr>"
    by blast
  then show entry:
    "products c1 (pageKey rt (baseStyle s)) = Some \<lparr> timestamp = store1, cachedValue = p \<rparr>"
    by simp
  from h have "timestamp \<lparr> timestamp = store1, cachedValue = p \<rparr> \<noteq> 0"
    and "now2 - timestamp \<lparr> timestamp = store1, cachedValue = p \<rparr> < 60000"
    by simp_all
  from getProductInfo_hit [OF entry this, of up2 store2 sid2]
  show "getProductInfo rt up2 c1 now2 store2 s sid2 = (Inr p, c1, [])"
    by simp
next
  assume "products c (pageKey rt (baseStyle s)) = Some e \<and>
    timestamp e \<noteq> 0 \<and> now - timestamp e < 60000"
  then show "getProductInfo rt up c now nowStore s sid = (Inr (cachedValue e), c, [])"
    by (simp add: getProductInfo_hit)
next
  assume h: "products c (pageKey rt (baseStyle s)) = Some e \<and> \<not> now - timestamp e < 60000"
  then have stale: "\<not> pageFresh c (pageKey rt (baseStyle s)) now"
    by (simp add: pageFresh_def)
  then show "snd (snd (getProductInfo rt up c now nowStore s sid)) =
      [FromURL (productPath (baseStyle s))]"
    by (simp add: getProductInfo_sent)
  fix page p'
  assume "fromURL up (productPath (baseStyle s)) = Inr page \<and> parseProduct rt page = Inr p'"
  then show "getProductInfo rt up c now nowStore s sid =
      (Inr p',
       c\<lparr>products := (products c)
         (pageKey rt (baseStyle s) \<mapsto> \<lparr> timestamp = nowStore, cachedValue = p' \<rparr>)\<rparr>,
       [FromURL (productPath (baseStyle s))])"
    by (simp add: getProductInfo_stale [OF stale])
qed

lemma example_base: "baseStyle (js ''12345050'') = js ''12345''"
  by (simp add: baseStyle_def js_Nil js_Cons)

lemma example_path: "productPath (js ''12345'') = js ''/Products/Product-12345''"
  by (simp add: js_Nil js_Cons)

lemma example_key:
  "js ''page@sz:'' @ toLowerCase exampleRuntime (js ''/Products/Product-12345'') =
   js ''page@sz:/products/product-12345''"
  by (simp add: toLowerCase_def js_Nil js_Cons char_class_defs)

lemmas example_page_eval = example_base example_path example_key

lemma example_first_call:
  "getProductInfo exampleRuntime (pageReplies examplePage) emptyCache 1000 1200
     (js ''12345050'') Undefined =
   (Inr exampleProduct, cacheWithProduct, [FromURL (js ''/Products/Product-12345'')])"
proof -
  have "\<not> pageFresh emptyCache (pageKey exampleRuntime (baseStyle (js ''12345050''))) 1000"
    by (rule pageFresh_empty) (simp add: emptyCache_def)
  from getProductInfo_stale [OF this, of "pageReplies examplePage" 1200 Undefined]
  show ?thesis
    by (simp only: example_page_eval)
       (simp add: pageReplies_def offlineUpstream_def example_parse emptyCache_def
          cacheWithProduct_def)
qed

theorem getProductInfo_style_code_witness:
  "length (js ''050'') = 3 \<and> 5 \<le> length (js ''12345'') \<and>
   snd (snd (getProductInfo exampleRuntime offlineUpstream emptyCache 1000 1200
     (js ''12345'' @ js ''050'') Undefined)) = [FromURL (js ''/Products/Product-'' @ js ''12345'')]"
proof -
  have h: "length (js ''050'') = 3 \<and> 5 \<le> length (js ''12345'')"
    by (simp add: js_def)
  have "products emptyCache = Map.empty"
    by (simp add: emptyCache_def)
  with getProductInfo_style_code [of "js ''050''" "js ''12345''" exampleRuntime offlineUpstream
      emptyCache 1000 1200 Undefined] h
  show ?thesis by blast
qed

theorem getProductInfo_page_cache_witness:
  "getProductInfo exampleRuntime (pageReplies examplePage) emptyCache 1000 1200
     (js ''12345050'') Undefined =
     (Inr exampleProduct, cacheWithProduct, [FromURL (js ''/Products/Product-12345'')]) \<and>
   getProductInfo exampleRuntime offlineUpstream cacheWithProduct 61199 61300
     (js ''12345050'') Null =
     (Inr exampleProduct, cacheWithProduct, []) \<and>
   snd (snd (getProductInfo exampleRuntime offlineUpstream cacheWithProduct 61200 61300
     (js ''12345050'') Null)) = [FromURL (js ''/Products/Product-12345'')]"
proof -
  have first: "getProductInfo exampleRuntime (pageReplies examplePage) emptyCache 1000 1200
      (js ''12345050'') Undefined =
      (Inr exampleProduct, cacheWithProduct, [FromURL (js ''/Products/Product-12345'')]) \<and>
      (1200 :: int) \<noteq> 0 \<and> (61199 :: int) - 1200 < 60000"
    using example_first_call by simp
  from getProductInfo_page_cache [THEN conjunct1, rule_format, OF first]
  have second: "getProductInfo exampleRuntime offlineUpstream cacheWithProduct 61199 61300
      (js ''12345050'') Null = (Inr exampleProduct, cacheWithProduct, [])"
    by (rule conjunct2)
  have "products cacheWithProduct (js ''page@sz:/products/product-12345'') =
      Some \<lparr> timestamp = 1200, cachedValue = exampleProduct \<rparr>"
    by (simp add: cacheWithProduct_def)
  then have stale:
    "products cacheWithProduct (pageKey exampleRuntime (baseStyle (js ''12345050''))) =
       Some \<lparr> timestamp = 1200, cachedValue = exampleProduct \<rparr> \<and>
     \<not> 61200 - timestamp \<lparr> timestamp = 1200, cachedValue = exampleProduct \<rparr> < 60000"
    by (simp only: example_page_eval) simp
  from getProductInfo_page_cache [THEN conjunct2, THEN conjunct2, rule_format, OF stale,
      THEN conjunct1, of offlineUpstream 61300 Null]
  have third: "snd (snd (getProductInfo exampleRuntime offlineUpstream cacheWithProduct 61200 61300
      (js ''12345050'') Null)) = [FromURL (js ''/Products/Product-12345'')]"
    by (simp only: example_page_eval)
  from example_first_call second third show ?thesis
    by (intro conjI)
qed

section \<open>getProductInfo: ignored offers\<close>

lemma toOffers_names:
  "toOffers rt els = Inr os \<Longrightarrow> map name os = map (\<lambda>el. trim (title el)) els"
  by (induction els arbitrary: os) (auto split: option.splits sum.splits)

lemma parseProduct_offers:
  assumes "parseProduct rt page = Inr p"
  shows "map name (offers p) =
         filter (\<lambda>n. toLowerCase rt n \<notin> set ignoredOffers)
           (map (\<lambda>el. trim (title el)) (offerElements page))"
proof -
  from assms obtain os where os: "toOffers rt (offerElements page) = Inr os"
    and p: "offers p = filter (\<lambda>x. toLowerCase rt (name x) \<notin> set ignoredOffers) os"
    by (auto simp: parseProduct_def split: option.splits sum.splits)
  have "map name (offers p) = filter (\<lambda>n. toLowerCase rt n \<notin> set ignoredOffers) (map name os)"
    unfolding p by (simp add: filter_map comp_def)
  with toOffers_names [OF os] show ?thesis
    by simp
qed

lemma parseProduct_filtered: "parseProduct rt page = Inr p \<Longrightarrow> offersFiltered rt p"
  by (auto simp: parseProduct_def offersFiltered_def list_all_iff split: option.splits sum.splits)

lemma getProductInfo_filtered:
  assumes "cacheFiltered rt c"
      and "getProductInfo rt up c now nowStore s sid = (Inr p, c', sent)"
  shows "offersFiltered rt p \<and> cacheFiltered rt c'"
proof (cases "pageFresh c (pageKey rt (baseStyle s)) now")
  case True
  from getProductInfo_fresh [OF True, of up nowStore sid] assms show ?thesis
    by (auto simp: cacheFiltered_def)
next
  case False
  from assms(2) have "sent = [FromURL (productPath (baseStyle s))]"
    using getProductInfo_sent [of rt up c now nowStore s sid] False by simp
  with assms(2) getProductInfo_fetched [of rt up c now nowStore s sid p c']
  obtain page where "parseProduct rt page = Inr p"
    and c': "c' = c\<lparr>products := (products c)
      (pageKey rt (baseStyle s) \<mapsto> \<lparr> timestamp = nowStore, cachedValue = p \<rparr>)\<rparr>"
    by blast
  then have "offersFiltered rt p"
    by (simp add: parseProduct_filtered)
  with assms(1) show ?thesis
    unfolding c' by (auto simp: cacheFiltered_def)
qed

text \<open>
  C7. The offers of a product parsed from a page are the badges, in order, whose trimmed
  title in lower case is not equal to the ignored entry \<open>memory foam\<close>: a badge that
  is equal to it in any case is left out, and a badge that only contains it is kept.
  When no cached product has an ignored offer, no product that \<open>getProductInfo\<close>
  returns has one, and the cache stays so.
\<close>

theorem getProductInfo_ignored_offers:
  "(getProductInfo rt up c now nowStore s sid = (Inr p, c', [FromURL path]) \<and>
    fromURL up path = Inr page \<longrightarrow>
      map name (offers p) =
        filter (\<lambda>n. toLowerCase rt n \<noteq> js ''memory foam'')
          (map (\<lambda>el. trim (title el)) (offerElements page))) \<and>
   (cacheFiltered rt c \<and> getProductInfo rt up c now nowStore s sid = (Inr p, c', sent) \<longrightarrow>
      list_all (\<lambda>x. toLowerCase rt (name x) \<noteq> js ''memory foam'') (offers p) \<and>
      cacheFiltered rt c')"
proof (intro conjI impI)
  assume h: "getProductInfo rt up c now nowStore s sid = (Inr p, c', [FromURL path]) \<and>
    fromURL up path = Inr page"
  with getProductInfo_fetched [of rt up c now nowStore s sid p c' path]
  have "parseProduct rt page = Inr p"
    by auto
  from parseProduct_offers [OF this]
  show "map name (offers p) =
        filter (\<lambda>n. toLowerCase rt n \<noteq> js ''memory foam'')
          (map (\<lambda>el. trim (title el)) (offerElements page))"
    by (simp add: ignoredOffers_def)
next
  assume h: "cacheFiltered rt c \<and> getProductInfo rt up c now nowStore s sid = (Inr p, c', sent)"
  with getProductInfo_filtered [of rt c up now nowStore s sid p c' sent]
  have f: "offersFiltered rt p \<and> cacheFiltered rt c'"
    by blast
  then show "list_all (\<lambda>x. toLowerCase rt (name x) \<noteq> js ''memory foam'') (offers p)"
    by (simp add: offersFiltered_def ignoredOffers_def)
  from f show "cacheFiltered rt c'" by simp
qed

theorem getProductInfo_ignored_offers_witness:
  "map (\<lambda>el. trim (title el)) (offerElements examplePage) =
     [js ''MEMORY Foam'', js ''Memory Foam Insoles'', js ''Buy One Get One Free''] \<and>
   map name (offers exampleProduct) = [js ''Memory Foam Insoles'', js ''Buy One Get One Free'']"
proof -
  have titles: "map (\<lambda>el. trim (title el)) (offerElements examplePage) =
      [js ''MEMORY Foam'', js ''Memory Foam Insoles'', js ''Buy One Get One Free'']"
    by (simp add: examplePage_def trim_def js_Nil js_Cons isWhiteSpace_def)
  have "fromURL (pageReplies examplePage) (js ''/Products/Product-12345'') = Inr examplePage"
    by (simp add: pageReplies_def)
  with getProductInfo_ignored_offers [of exampleRuntime "pageReplies examplePage" emptyCache
      1000 1200 "js ''12345050''" Undefined exampleProduct cacheWithProduct
      "js ''/Products/Product-12345''" examplePage] example_first_call
  have "map name (offers exampleProduct) =
      filter (\<lambda>n. toLowerCase exampleRuntime n \<noteq> js ''memory foam'')
        (map (\<lambda>el. trim (title el)) (offerElements examplePage))"
    by blast
  also have "\<dots> = [js ''Memory Foam Insoles'', js ''Buy One Get One Free'']"
    unfolding titles by (simp add: toLowerCase_def js_Nil js_Cons char_class_defs)
  finally show ?thesis using titles by simp
qed

end
